theory Spec2Isabelle
  imports Complex_Main
begin

section \<open>Python and numpy values\<close>

text \<open>
  The exceptions the modelled code can raise. A function that can raise returns
  \<open>py_error + 'a\<close>, with \<open>Inl\<close> for the exception.

  Numbers are modelled as \<open>real\<close>: the values of the files and every float64 result
  are exact reals. Where the code converts an array to float32, the model rounds its
  entries with \<open>float32_round\<close> below, and a product of two float32 values is the
  rounded exact product.
  Sizes, counts and indices (batch size, bin counts, number of rows, number of output
  classes) are natural numbers; where the source subtracts two of them the difference
  is taken in \<open>int\<close>.
\<close>

datatype py_error =
  IndexError | KeyError | ValueError | AssertionError | ZeroDivisionError
  | NameError | OSError | TypeError

fun err_bind :: "py_error + 'a \<Rightarrow> ('a \<Rightarrow> py_error + 'b) \<Rightarrow> py_error + 'b" where
  "err_bind (Inl e) f = Inl e"
| "err_bind (Inr x) f = f x"

definition py_getitem :: "'a list \<Rightarrow> nat \<Rightarrow> py_error + 'a" where
  \<comment> \<open>\<open>xs[i]\<close> for an index that is not negative\<close>
  "py_getitem xs i = (if i < length xs then Inr (xs ! i) else Inl IndexError)"

definition py_setitem :: "'a list \<Rightarrow> nat \<Rightarrow> 'a \<Rightarrow> py_error + 'a list" where
  \<comment> \<open>\<open>xs[i] = v\<close> for an index that is not negative\<close>
  "py_setitem xs i v = (if i < length xs then Inr (xs[i := v]) else Inl IndexError)"

definition py_slice :: "nat \<Rightarrow> nat \<Rightarrow> 'a list \<Rightarrow> 'a list" where
  \<comment> \<open>\<open>xs[lo:hi]\<close> for bounds that are not negative: the slice is cut at the end of \<open>xs\<close>\<close>
  "py_slice lo hi xs = take (hi - lo) (drop lo xs)"

text \<open>
  \<open>float32_round x\<close> is the float32 value nearest to \<open>x\<close>, ties to the even
  significand: with \<open>2 ^ e <= |x| < 2 ^ (e + 1)\<close> the float32 values around \<open>x\<close> are
  the multiples of \<open>2 ^ (e - 23)\<close>, and below \<open>2 ^ (- 126)\<close> (the subnormal range) the
  multiples of \<open>2 ^ (- 149)\<close>. The exponent is not bounded from above, while float32
  has infinity from \<open>2 ^ 128\<close> on: the conversion of \<open>x\<close> is a finite float32 value, and
  \<open>float32_round x\<close> is that value, if \<open>float32_finite x\<close>. Infinity and NaN are not
  values of the model.
\<close>

function bit_length :: "int \<Rightarrow> nat" where
  "bit_length n = (if n \<le> 0 then 0 else Suc (bit_length (n div 2)))"
  by pat_completeness auto

termination bit_length
  by (relation "measure nat") auto

declare bit_length.simps [simp del]

definition exponent2 :: "real \<Rightarrow> int" where
  \<comment> \<open>for \<open>a > 0\<close>, the \<open>e\<close> with \<open>2 ^ e <= a < 2 ^ (e + 1)\<close>\<close>
  "exponent2 a =
     (if 1 \<le> a then int (bit_length \<lfloor>a\<rfloor>) - 1
      else - int (bit_length (\<lceil>1 / a\<rceil> - 1)))"

definition round_half_even :: "real \<Rightarrow> int" where
  "round_half_even q =
     (let n = \<lfloor>q\<rfloor>; d = q - of_int n
      in if d < 1 / 2 then n else if 1 / 2 < d then n + 1
         else if even n then n else n + 1)"

definition float32_round :: "real \<Rightarrow> real" where
  "float32_round x =
     (if x = 0 then 0
      else
        let e = max (exponent2 \<bar>x\<bar>) (- 126);
            ulp = 2 powi (e - 23)
        in of_int (round_half_even (x / ulp)) * ulp)"

definition float32_finite :: "real \<Rightarrow> bool" where
  "float32_finite x \<longleftrightarrow> \<bar>float32_round x\<bar> < 2 ^ 128"

text \<open>
  An n-dimensional numpy array is its shape and its entries in row-major order. A
  two-dimensional array that the code reads row by row or column by column is kept as
  its list of rows, together with the number of columns (which an array without rows
  still has).
\<close>

record ndarray =
  shape :: "nat list"
  data :: "real list"

record array2d =
  n_cols :: nat
  rows2d :: "real list list"

definition nd_astype_float32 :: "ndarray \<Rightarrow> ndarray" where
  \<comment> \<open>\<open>a.astype(np.float32)\<close>\<close>
  "nd_astype_float32 a = a\<lparr>data := map float32_round (data a)\<rparr>"

definition np_reshape :: "real list \<Rightarrow> nat list \<Rightarrow> py_error + ndarray" where
  \<comment> \<open>\<open>np.reshape(a, dims)\<close> on the entries of \<open>a\<close>: the sizes have to agree\<close>
  "np_reshape flat dims =
     (if length flat = prod_list dims then Inr \<lparr>shape = dims, data = flat\<rparr>
      else Inl ValueError)"

section \<open>nn\_utilities: shapes and labels\<close>

subsection \<open>get\_dimensions\_encoding\<close>

definition get_dimensions_encoding :: "nat list \<Rightarrow> nat \<Rightarrow> py_error + nat list" where
  "get_dimensions_encoding n_bins batchsize =
     err_bind (py_getitem n_bins 0) (\<lambda>n_bins_x.
     err_bind (py_getitem n_bins 1) (\<lambda>n_bins_y.
     err_bind (py_getitem n_bins 2) (\<lambda>n_bins_z.
     err_bind (py_getitem n_bins 3) (\<lambda>n_bins_t.
       Inr (if n_bins_x = 1 then
              (if n_bins_y = 1 then [batchsize, n_bins_z, n_bins_t, 1]
               else if n_bins_z = 1 then [batchsize, n_bins_y, n_bins_t, 1]
               else if n_bins_t = 1 then [batchsize, n_bins_y, n_bins_z, 1]
               else [batchsize, n_bins_y, n_bins_z, n_bins_t, 1])
            else if n_bins_y = 1 then
              (if n_bins_z = 1 then [batchsize, n_bins_x, n_bins_t, 1]
               else if n_bins_t = 1 then [batchsize, n_bins_x, n_bins_z, 1]
               else [batchsize, n_bins_x, n_bins_z, n_bins_t, 1])
            else if n_bins_z = 1 then
              (if n_bins_t = 1 then [batchsize, n_bins_x, n_bins_y, 1]
               else [batchsize, n_bins_x, n_bins_y, n_bins_t, 1])
            else if n_bins_t = 1 then [batchsize, n_bins_x, n_bins_y, n_bins_z, 1]
            else [batchsize, n_bins_x, n_bins_y, n_bins_z, n_bins_t])))))"

subsection \<open>get\_regression\_labels\<close>

text \<open>
  \<open>y_values[:, lo:hi]\<close>: the columns \<open>lo\<close> to \<open>hi - 1\<close> of every row, as far as they
  exist.
\<close>

definition col_slice :: "nat \<Rightarrow> nat \<Rightarrow> array2d \<Rightarrow> array2d" where
  "col_slice lo hi a =
     \<lparr>n_cols = min hi (n_cols a) - min lo (n_cols a),
      rows2d = map (py_slice lo hi) (rows2d a)\<rparr>"

text \<open>
  \<open>y_values.astype(np.float32)\<close>: a new array with every entry converted.
\<close>

definition astype_float32 :: "array2d \<Rightarrow> array2d" where
  "astype_float32 a = a\<lparr>rows2d := map (map float32_round) (rows2d a)\<rparr>"

text \<open>
  The two assignments through the boolean mask \<open>elec_nc_bool_id\<close>, on the float32
  array: in every row with \<open>|particle_type| = 12\<close> and \<open>is_cc = 0\<close>, column 2 becomes
  the float32 product of columns 2 and 4, and then column 4 becomes 1. The columns 1 to
  4 are read with integer indices, so an array with fewer than five columns raises
  IndexError.
\<close>

definition elec_nc_bool_id :: "real list \<Rightarrow> bool" where
  "elec_nc_bool_id r = (\<bar>r ! 1\<bar> = 12 \<and> r ! 3 = 0)"

definition correct_elec_nc :: "array2d \<Rightarrow> py_error + array2d" where
  "correct_elec_nc y_values =
     (if n_cols y_values < 5 then Inl IndexError
      else Inr (y_values\<lparr>rows2d :=
             map (\<lambda>r. if elec_nc_bool_id r
                      then (r[2 := float32_round (r ! 2 * r ! 4)])[4 := 1] else r)
                 (rows2d y_values)\<rparr>))"

text \<open>
  The dictionaries \<open>ys\<close> that the second and the third branch fill from the (corrected)
  array \<open>y_values\<close>, in the order of the assignments.
\<close>

definition ys_errors :: "array2d \<Rightarrow> (string \<times> array2d) list" where
  "ys_errors y_values =
     [(''dir_x'', col_slice 5 6 y_values), (''dir_x_err'', col_slice 5 6 y_values),
      (''dir_y'', col_slice 6 7 y_values), (''dir_y_err'', col_slice 6 7 y_values),
      (''dir_z'', col_slice 7 8 y_values), (''dir_z_err'', col_slice 7 8 y_values),
      (''e'', col_slice 2 3 y_values), (''e_err'', col_slice 2 3 y_values),
      (''by'', col_slice 4 5 y_values), (''by_err'', col_slice 4 5 y_values)]"

definition ys_vtx_errors :: "array2d \<Rightarrow> (string \<times> array2d) list" where
  "ys_vtx_errors y_values =
     [(''dx'', col_slice 5 6 y_values), (''dx_err'', col_slice 5 6 y_values),
      (''dy'', col_slice 6 7 y_values), (''dy_err'', col_slice 6 7 y_values),
      (''dz'', col_slice 7 8 y_values), (''dz_err'', col_slice 7 8 y_values),
      (''e'', col_slice 2 3 y_values), (''e_err'', col_slice 2 3 y_values),
      (''by'', col_slice 4 5 y_values), (''by_err'', col_slice 4 5 y_values),
      (''vx'', col_slice 10 11 y_values), (''vx_err'', col_slice 10 11 y_values),
      (''vy'', col_slice 11 12 y_values), (''vy_err'', col_slice 11 12 y_values),
      (''vz'', col_slice 12 13 y_values), (''vz_err'', col_slice 12 13 y_values),
      (''vt'', col_slice 13 14 y_values), (''vt_err'', col_slice 13 14 y_values)]"

definition get_regression_labels ::
  "array2d \<Rightarrow> nat \<times> string \<Rightarrow> py_error + (string \<times> array2d) list" where
  "get_regression_labels y_values class_type =
     (let y_values = astype_float32 y_values
      in if snd class_type = ''energy_and_direction_and_bjorken-y'' then
           Inr [(''dir_x'', col_slice 5 6 y_values),
                (''dir_y'', col_slice 6 7 y_values),
                (''dir_z'', col_slice 7 8 y_values),
                (''energy'', col_slice 2 3 y_values),
                (''bjorken-y'', col_slice 4 5 y_values)]
         else if snd class_type = ''energy_dir_bjorken-y_errors'' then
           err_bind (correct_elec_nc y_values) (\<lambda>y_values. Inr (ys_errors y_values))
         else if snd class_type = ''energy_dir_bjorken-y_vtx_errors'' then
           err_bind (correct_elec_nc y_values) (\<lambda>y_values. Inr (ys_vtx_errors y_values))
         else Inl ValueError)"

text \<open>
  Two label dictionaries agree on event \<open>j\<close>: they have the same keys in the same
  order, and under each key the same row \<open>j\<close>.
\<close>

definition same_labels_at ::
  "nat \<Rightarrow> (string \<times> array2d) list \<Rightarrow> (string \<times> array2d) list \<Rightarrow> bool" where
  "same_labels_at j ys ys0 =
     list_all2 (\<lambda>l l0. fst l = fst l0 \<and> rows2d (snd l) ! j = rows2d (snd l0) ! j) ys ys0"

subsection \<open>encode\_targets\<close>

text \<open>
  \<open>np.random.randint(2)\<close> is the only source of randomness: the value it would return
  is the argument \<open>coin\<close> (\<open>True\<close> for 1).
\<close>

definition get_class_up_down_categorical :: "bool \<Rightarrow> real \<Rightarrow> nat \<Rightarrow> py_error + real list" where
  "get_class_up_down_categorical coin dir_z n_neurons =
     (let up_down_class_value = (if dir_z < 0 then - 1 else if dir_z = 0 then 0 else (1::int));
          up_down_class_value =
            (if up_down_class_value = 0 then (if coin then 1 else 0) else up_down_class_value);
          up_down_class_value = (if up_down_class_value = - 1 then 0 else up_down_class_value);
          y_cat_up_down = replicate n_neurons (0::real)
      in if n_neurons = 1 then py_setitem y_cat_up_down 0 (real_of_int up_down_class_value)
         else py_setitem y_cat_up_down (nat up_down_class_value) 1)"

definition particle_type_dict :: "((real \<times> real) \<times> nat) list" where
  "particle_type_dict = [((12, 0), 0), ((12, 1), 1), ((14, 1), 2), ((16, 1), 3)]"

definition convert_particle_class_to_categorical ::
  "real \<Rightarrow> real \<Rightarrow> nat \<Rightarrow> py_error + int list" where
  "convert_particle_class_to_categorical particle_type is_cc num_classes =
     (if num_classes = 4 then
        (case map_of particle_type_dict (\<bar>particle_type\<bar>, is_cc) of
           None \<Rightarrow> Inl KeyError
         | Some category \<Rightarrow> py_setitem (replicate num_classes 0) category 1)
      else Inl ValueError)"

definition encode_targets :: "bool \<Rightarrow> real list \<Rightarrow> nat \<times> string \<Rightarrow> py_error + real list" where
  "encode_targets coin y_val class_type =
     (if snd class_type = ''track-shower'' then
        (if fst class_type \<noteq> 2 then Inl AssertionError
         else
           err_bind (py_getitem y_val 1) (\<lambda>particle_type.
           err_bind (py_getitem y_val 3) (\<lambda>is_cc.
           err_bind (convert_particle_class_to_categorical particle_type is_cc 4)
             (\<lambda>categorical_type.
               let train_y = replicate (fst class_type) (0::real)
               in if categorical_type ! 2 = 1 then py_setitem train_y 1 1
                  else py_setitem train_y 0 1))))
      else if snd class_type = ''up_down'' then
        err_bind (py_getitem y_val 7) (\<lambda>dir_z.
          get_class_up_down_categorical coin dir_z (fst class_type))
      else if snd class_type = ''tau-CC_vs_other_neutrinos'' then
        err_bind (py_getitem y_val 1) (\<lambda>particle_type.
        err_bind (py_getitem y_val 3) (\<lambda>is_cc.
        err_bind (convert_particle_class_to_categorical particle_type is_cc 4)
          (\<lambda>categorical_type.
            let train_y = replicate (fst class_type) (0::real)
            in if fst class_type = 1 then
                 (if categorical_type ! 3 \<noteq> 0
                  then py_setitem train_y 0 (real_of_int (categorical_type ! 3))
                  else Inr train_y)
               else if fst class_type \<noteq> 2 then Inl AssertionError
               else
                 err_bind (py_setitem train_y 0 (real_of_int (categorical_type ! 3)))
                   (\<lambda>train_y.
                     if categorical_type ! 3 \<noteq> 1 then py_setitem train_y 1 1
                     else Inr train_y))))
      else Inr y_val)"

section \<open>Strings\<close>

definition digit_chars :: string where
  "digit_chars = ''0123456789''"

fun str_nat :: "nat \<Rightarrow> string" where
  "str_nat n = (if n < 10 then [digit_chars ! n]
                else str_nat (n div 10) @ [digit_chars ! (n mod 10)])"

declare str_nat.simps [simp del]

definition str_int :: "int \<Rightarrow> string" where
  \<comment> \<open>\<open>str(i)\<close> for an integer\<close>
  "str_int i = (if i < 0 then CHR ''-'' # str_nat (nat (- i)) else str_nat (nat i))"

fun str_contains :: "string \<Rightarrow> string \<Rightarrow> bool" where
  \<comment> \<open>\<open>needle in hay\<close> for two strings\<close>
  "str_contains [] needle = (needle = [])"
| "str_contains (c # cs) needle =
     (take (length needle) (c # cs) = needle \<or> str_contains cs needle)"

section \<open>model\_setup\<close>

text \<open>
  The neural-network library and the modules \<open>model_archs\<close>, \<open>utilities.losses\<close> and
  \<open>utilities.multi_gpu\<close> are not part of the sources. A model object is the term of the
  calls that made it: the three constructors of \<open>build_nn_model\<close>,
  \<open>ks.models.load_model(path)\<close>, \<open>make_parallel(model, gpus_list)\<close>, and
  \<open>Compiled model args\<close> for the object after \<open>model.compile(args)\<close>. The keys of
  \<open>get_all_loss_functions()\<close> and the function \<open>get_available_gpus\<close> are parameters.
  \<open>print\<close> and \<open>model.summary()\<close> leave no trace.
\<close>

datatype toml_value = TStr string | TNum real

datatype loss_function = CustomObject string | Plain toml_value

datatype optimizer = Adam | SGD

record compile_args =
  arg_loss :: "(string \<times> loss_function) list"
  arg_optimizer :: optimizer
  arg_metrics :: "(string \<times> string) list"
  arg_loss_weights :: "(string \<times> toml_value) list"

datatype nn_model =
    WideResidualNetwork "nat list" nat "string option"
  | VggMultiInput "nat list list" string nat "string option"
  | VggLike "nat list list" "nat \<times> string" "string option"
  | LoadedModel string
  | Parallel nn_model "string list"
  | Compiled nn_model compile_args

definition parallelize_model_to_n_gpus ::
  "(int \<Rightarrow> string list) \<Rightarrow> nn_model \<Rightarrow> int \<times> string \<Rightarrow> nat
     \<Rightarrow> (string \<times> loss_function) list \<Rightarrow> optimizer \<Rightarrow> (string \<times> string) list
     \<Rightarrow> (string \<times> toml_value) list \<Rightarrow> py_error + nn_model \<times> nat" where
  "parallelize_model_to_n_gpus get_available_gpus model n_gpu batchsize
       loss_functions optimizer metrics loss_weight =
     (if snd n_gpu = ''avolkov'' then
        (if fst n_gpu = 1 then Inr (model, batchsize)
         else if \<not> fst n_gpu > 1 then Inl AssertionError
         else
           let gpus_list = get_available_gpus (fst n_gpu);
               ngpus = length gpus_list;
               batchsize = batchsize * ngpus;
               model = Parallel model gpus_list;
               model = Compiled model
                 \<lparr>arg_loss = loss_functions, arg_optimizer = optimizer,
                  arg_metrics = metrics, arg_loss_weights = loss_weight\<rparr>
           in Inr (model, batchsize))
      else Inl ValueError)"

definition build_nn_model ::
  "string \<Rightarrow> nat list list \<Rightarrow> nat \<times> string \<Rightarrow> string option \<Rightarrow> string
     \<Rightarrow> py_error + nn_model" where
  "build_nn_model nn_arch n_bins class_type swap_4d_channels str_ident =
     (if nn_arch = ''WRN'' then
        err_bind (py_getitem n_bins 0) (\<lambda>n_bins_0.
          Inr (WideResidualNetwork n_bins_0 (fst class_type) swap_4d_channels))
      else if nn_arch = ''VGG'' then
        (if str_contains str_ident ''multi_input_single_train''
         then Inr (VggMultiInput n_bins str_ident (fst class_type) swap_4d_channels)
         else Inr (VggLike n_bins class_type swap_4d_channels))
      else Inl ValueError)"

text \<open>
  \<open>loss_opt[0]\<close> is a dictionary from the name of a network output to a dictionary
  with the key \<open>function\<close> and, optionally, the key \<open>weight\<close>; \<open>loss_opt[1]\<close> is the
  metrics or \<open>None\<close>. A dictionary is the list of its items in insertion order.
\<close>

fun loss_items ::
  "string list \<Rightarrow> (string \<times> (string \<times> toml_value) list) list
     \<Rightarrow> py_error + (string \<times> loss_function \<times> toml_value) list" where
  "loss_items custom_objects [] = Inr []"
| "loss_items custom_objects ((loss_key, entry) # rest) =
     (case map_of entry ''function'' of
        None \<Rightarrow> Inl KeyError
      | Some f \<Rightarrow>
          let loss_function =
                (case f of
                   TStr name \<Rightarrow> if name \<in> set custom_objects then CustomObject name else Plain f
                 | TNum _ \<Rightarrow> Plain f);
              weight = (case map_of entry ''weight'' of Some w \<Rightarrow> w | None \<Rightarrow> TNum 1)
          in err_bind (loss_items custom_objects rest)
               (\<lambda>items. Inr ((loss_key, loss_function, weight) # items)))"

definition get_optimizer_info ::
  "string list \<Rightarrow> (string \<times> (string \<times> toml_value) list) list \<times> (string \<times> string) list option
     \<Rightarrow> string \<Rightarrow> py_error + compile_args" where
  "get_optimizer_info custom_objects loss_opt optimizer =
     (if optimizer \<noteq> ''adam'' \<and> optimizer \<noteq> ''sgd'' then Inl NameError
      else
        err_bind (loss_items custom_objects (fst loss_opt)) (\<lambda>items.
          Inr \<lparr>arg_loss = map (\<lambda>(k, f, w). (k, f)) items,
               arg_optimizer = (if optimizer = ''adam'' then Adam else SGD),
               arg_metrics = (case snd loss_opt of Some m \<Rightarrow> m | None \<Rightarrow> []),
               arg_loss_weights = map (\<lambda>(k, f, w). (k, w)) items\<rparr>))"

definition build_or_load_nn_model ::
  "string list \<Rightarrow> (int \<Rightarrow> string list) \<Rightarrow> int \<times> int \<Rightarrow> string \<Rightarrow> string
     \<Rightarrow> nat list list \<Rightarrow> nat \<times> string \<Rightarrow> string option \<Rightarrow> string
     \<Rightarrow> (string \<times> (string \<times> toml_value) list) list \<times> (string \<times> string) list option
     \<Rightarrow> int \<times> string \<Rightarrow> nat \<Rightarrow> py_error + nn_model" where
  "build_or_load_nn_model custom_objects get_available_gpus epoch folder_name nn_arch
       n_bins class_type swap_4d_channels str_ident loss_opt n_gpu batchsize =
     err_bind
       (if fst epoch = 0
        then build_nn_model nn_arch n_bins class_type swap_4d_channels str_ident
        else
          let path_of_model = folder_name @ ''/saved_models/model_epoch_''
                @ str_int (fst epoch) @ ''_file_'' @ str_int (snd epoch) @ ''.h5''
          in Inr (LoadedModel path_of_model))
       (\<lambda>model.
     err_bind (get_optimizer_info custom_objects loss_opt ''adam'') (\<lambda>args.
     err_bind (parallelize_model_to_n_gpus get_available_gpus model n_gpu batchsize
                 (arg_loss args) (arg_optimizer args) (arg_metrics args) (arg_loss_weights args))
       (\<lambda>(model, batchsize).
          if fst epoch = 0 then Inr (Compiled model args) else Inr model)))"

text \<open>How often \<open>compile\<close> was called on the way to a model object, and the model
  that was built or loaded at the start.\<close>

fun compile_calls :: "nn_model \<Rightarrow> nat" where
  "compile_calls (Compiled m args) = Suc (compile_calls m)"
| "compile_calls (Parallel m gpus) = compile_calls m"
| "compile_calls m = 0"

fun initial_model :: "nn_model \<Rightarrow> nn_model" where
  "initial_model (Compiled m args) = initial_model m"
| "initial_model (Parallel m gpus) = initial_model m"
| "initial_model m = m"

section \<open>numpy arrays\<close>

text \<open>
  Row-major strides and the multi-indices of a shape in row-major order; with them the
  numpy operations the code calls are functions on the list of entries.
\<close>

fun strides :: "nat list \<Rightarrow> nat list" where
  "strides [] = []"
| "strides (d # ds) = prod_list ds # strides ds"

fun indices :: "nat list \<Rightarrow> nat list list" where
  "indices [] = [[]]"
| "indices (d # ds) = concat (map (\<lambda>i. map ((#) i) (indices ds)) [0..<d])"

definition broadcast_shapes :: "nat list \<Rightarrow> nat list \<Rightarrow> nat list option" where
  \<comment> \<open>numpy's broadcasting rule: the shapes are aligned at their last axis, a missing
     axis counts as 1, and two lengths fit if they are equal or one of them is 1\<close>
  "broadcast_shapes s t =
     (let n = max (length s) (length t);
          s' = replicate (n - length s) 1 @ s;
          t' = replicate (n - length t) 1 @ t
      in if list_all2 (\<lambda>a b. a = b \<or> a = 1 \<or> b = 1) s' t'
         then Some (map2 (\<lambda>a b. if a = 1 then b else a) s' t') else None)"

definition broadcast_offset :: "nat list \<Rightarrow> nat list \<Rightarrow> nat" where
  \<comment> \<open>where an array of shape \<open>s\<close> holds the entry that its broadcast reads at the
     multi-index \<open>j\<close>\<close>
  "broadcast_offset s j =
     sum_list (map (\<lambda>(d, st, i). if d = 1 then 0 else i * st)
                   (zip s (zip (strides s) (drop (length j - length s) j))))"

definition np_broadcast_to :: "ndarray \<Rightarrow> nat list \<Rightarrow> py_error + ndarray" where
  "np_broadcast_to a sh =
     (if broadcast_shapes (shape a) sh = Some sh
      then Inr \<lparr>shape = sh, data = map (\<lambda>j. data a ! broadcast_offset (shape a) j) (indices sh)\<rparr>
      else Inl ValueError)"

definition np_subtract :: "ndarray \<Rightarrow> ndarray \<Rightarrow> py_error + ndarray" where
  "np_subtract a b =
     (case broadcast_shapes (shape a) (shape b) of
        None \<Rightarrow> Inl ValueError
      | Some sh \<Rightarrow>
          Inr \<lparr>shape = sh,
               data = map (\<lambda>j. data a ! broadcast_offset (shape a) j
                                - data b ! broadcast_offset (shape b) j) (indices sh)\<rparr>)"

definition np_transpose :: "ndarray \<Rightarrow> nat list \<Rightarrow> py_error + ndarray" where
  "np_transpose a axes =
     (if length axes = length (shape a) \<and> distinct axes
         \<and> list_all (\<lambda>ax. ax < length (shape a)) axes
      then
        let sh = map (\<lambda>ax. shape a ! ax) axes;
            st = map (\<lambda>ax. strides (shape a) ! ax) axes
        in Inr \<lparr>shape = sh, data = map (\<lambda>j. data a ! sum_list (map2 (*) j st)) (indices sh)\<rparr>
      else Inl ValueError)"

definition np_concatenate_last :: "ndarray \<Rightarrow> ndarray \<Rightarrow> py_error + ndarray" where
  \<comment> \<open>\<open>np.concatenate([a, b], axis=-1)\<close>\<close>
  "np_concatenate_last a b =
     (if shape a = [] \<or> shape b = [] \<or> butlast (shape a) \<noteq> butlast (shape b)
      then Inl ValueError
      else
        let la = last (shape a); lb = last (shape b)
        in Inr \<lparr>shape = butlast (shape a) @ [la + lb],
                data = concat (map (\<lambda>p. take la (drop (p * la) (data a))
                                         @ take lb (drop (p * lb) (data b)))
                                   [0..<prod_list (butlast (shape a))])\<rparr>)"

section \<open>HDF5 files and the file system\<close>

text \<open>
  A dataset of an HDF5 file is the list of its rows (the entries along the first axis),
  each row being its entries in row-major order, and the shape of one row. A file has
  the datasets \<open>x\<close> and \<open>y\<close>.

  An image is an array of means. \<open>np.mean\<close> of an empty slice is an array of NaN (with a
  warning, not an exception), and a mean over arrays of which one is NaN is NaN again:
  \<open>NanImage sh\<close> is the array of shape \<open>sh\<close> whose entries are all NaN.

  The file system holds what the code reads and writes: the entries of the directories
  (\<open>os.path.isdir\<close> holds for the keys, \<open>os.listdir\<close> gives the entries), the \<open>.npz\<close>
  files that \<open>np.load\<close> opens, and the HDF5 files, each under the path string that the
  code uses. Opening a path that is not there raises OSError. \<open>os.mkdir\<close> is taken to
  succeed.
\<close>

record h5_dataset =
  ds_row_shape :: "nat list"
  ds_rows :: "real list list"

record h5_file =
  x_dataset :: h5_dataset
  y_dataset :: h5_dataset

datatype image = MeanImage ndarray | NanImage "nat list"

fun image_shape :: "image \<Rightarrow> nat list" where
  "image_shape (MeanImage a) = shape a"
| "image_shape (NanImage sh) = sh"

fun is_nan_image :: "image \<Rightarrow> bool" where
  "is_nan_image (MeanImage a) = False"
| "is_nan_image (NanImage sh) = True"

fun image_data :: "image \<Rightarrow> real list" where
  "image_data (MeanImage a) = data a"
| "image_data (NanImage sh) = []"

record npz_file =
  npz_xs_mean :: image
  npz_used_ip_files :: "string list"

record file_system =
  dir_entries :: "string \<rightharpoonup> string list"
  npz_files :: "string \<rightharpoonup> npz_file"
  h5_files :: "string \<rightharpoonup> h5_file"

subsection \<open>get\_mean\_image\<close>

definition np_mean_axis0 :: "nat list \<Rightarrow> real list list \<Rightarrow> image" where
  \<comment> \<open>\<open>np.mean(a, axis=0)\<close> for the rows of an array \<open>a\<close> of shape \<open>(len(rs),) + sh\<close>\<close>
  "np_mean_axis0 sh rs =
     (if rs = [] then NanImage sh
      else MeanImage \<lparr>shape = sh,
                      data = map (\<lambda>c. sum_list (map (\<lambda>r. r ! c) rs) / real (length rs))
                                 [0..<prod_list sh]\<rparr>)"

definition np_mean_images :: "nat list \<Rightarrow> image list \<Rightarrow> image" where
  \<comment> \<open>\<open>np.mean(arr, axis=0)\<close> for an array \<open>arr\<close> whose rows are images of shape \<open>sh\<close>\<close>
  "np_mean_images sh imgs =
     (if list_ex is_nan_image imgs then NanImage sh
      else np_mean_axis0 sh (map image_data imgs))"

definition get_array_memsize :: "h5_dataset \<Rightarrow> real" where
  "get_array_memsize array =
     (let n_numbers = length (ds_rows array) * prod_list (ds_row_shape array);
          precision = 8
      in real (n_numbers * precision) / 8)"

text \<open>
  The loop of \<open>get_mean_image\<close> and the final mean, for a given number of steps.
  \<open>stepsize = int(n_rows / float(steps))\<close> is the integer quotient (the floating-point
  quotient is taken to be exact); with \<open>steps = 0\<close> the division raises.
\<close>

definition mean_image_in_steps :: "nat \<Rightarrow> h5_dataset \<Rightarrow> py_error + image" where
  "mean_image_in_steps steps xds =
     (if steps = 0 then Inl ZeroDivisionError
      else
        let n_rows = length (ds_rows xds);
            stepsize = n_rows div steps;
            xs_mean_arr =
              map (\<lambda>i. if i = steps - 1 \<or> steps = 1
                        then np_mean_axis0 (ds_row_shape xds)
                               (py_slice (i * stepsize) n_rows (ds_rows xds))
                        else np_mean_axis0 (ds_row_shape xds)
                               (py_slice (i * stepsize) ((i + 1) * stepsize) (ds_rows xds)))
                  [0..<steps]
        in Inr (np_mean_images (ds_row_shape xds) xs_mean_arr))"

text \<open>
  \<open>steps = int(np.ceil(filesize / total_memory))\<close>. With \<open>n_gpu = 0\<close> the division
  raises; with a negative \<open>n_gpu\<close> the loop is not entered and \<open>np.mean(None, axis=0)\<close>
  raises an IndexError (numpy's AxisError).
\<close>

definition get_mean_image :: "file_system \<Rightarrow> string \<Rightarrow> int \<Rightarrow> py_error + image" where
  "get_mean_image fs filepath n_gpu =
     (case h5_files fs filepath of
        None \<Rightarrow> Inl OSError
      | Some f \<Rightarrow>
          let total_memory = real_of_int n_gpu * 8000000000;
              filesize = get_array_memsize (x_dataset f)
          in if total_memory = 0 then Inl ZeroDivisionError
             else
               let steps = \<lceil>filesize / total_memory\<rceil>
               in if steps = 0 then Inl ZeroDivisionError
                  else if steps < 0 then Inl IndexError
                  else mean_image_in_steps (nat steps) (x_dataset f))"

subsection \<open>load\_zero\_center\_data\<close>

text \<open>
  The settings object \<open>cfg\<close>, as far as the code reads it: \<open>cfg.get_train_files()\<close> is
  a list of pairs of the file paths of one training file (one per model input) and its
  number of events, \<open>cfg.get_list_file()\<close> the path of the list file.
\<close>

record settings =
  cfg_train_files :: "(string list \<times> nat) list"
  cfg_zero_center_folder :: string
  cfg_list_file :: string
  cfg_n_gpu :: "int \<times> string"

definition ends_with :: "string \<Rightarrow> string \<Rightarrow> bool" where
  "ends_with s suffix =
     (length suffix \<le> length s \<and> drop (length s - length suffix) s = suffix)"

definition basename :: "string \<Rightarrow> string" where
  \<comment> \<open>\<open>os.path.basename\<close>: what follows the last slash\<close>
  "basename p = rev (takeWhile (\<lambda>c. c \<noteq> CHR ''/'') (rev p))"

definition load_fpaths_of_existing_zero_center_files ::
  "string \<Rightarrow> file_system \<Rightarrow> string list \<times> file_system" where
  "load_fpaths_of_existing_zero_center_files zero_center_folder fs =
     (case dir_entries fs zero_center_folder of
        Some entries \<Rightarrow>
          (map (\<lambda>file. zero_center_folder @ file)
               (filter (\<lambda>file. ends_with file ''.npz'') entries), fs)
      | None \<Rightarrow> ([], fs\<lparr>dir_entries := (dir_entries fs)(zero_center_folder \<mapsto> [])\<rparr>))"

fun get_fpaths_for_train_files_input_i ::
  "(string list \<times> nat) list \<Rightarrow> nat \<Rightarrow> py_error + string list" where
  "get_fpaths_for_train_files_input_i [] i = Inr []"
| "get_fpaths_for_train_files_input_i (train_file # train_files) i =
     err_bind (py_getitem (fst train_file) i) (\<lambda>fpath.
     err_bind (get_fpaths_for_train_files_input_i train_files i) (\<lambda>fpaths.
       Inr (fpath # fpaths)))"

fun get_precalculated_xs_mean_if_exists ::
  "file_system \<Rightarrow> string list \<Rightarrow> string list \<Rightarrow> py_error + image option" where
  "get_precalculated_xs_mean_if_exists fs [] all_train_files_for_ip_i = Inr None"
| "get_precalculated_xs_mean_if_exists fs (file # zero_center_files) all_train_files_for_ip_i =
     (case npz_files fs file of
        None \<Rightarrow> Inl OSError
      | Some npz \<Rightarrow>
          if npz_used_ip_files npz = all_train_files_for_ip_i
          then Inr (Some (npz_xs_mean npz))
          else get_precalculated_xs_mean_if_exists fs zero_center_files
                 all_train_files_for_ip_i)"

text \<open>
  The inner loop over the training files: \<open>xs_mean_for_ip_arr_i\<close> is \<open>None\<close> or the shape
  of its rows and the rows assigned so far. The assignment \<open>xs_mean_for_ip_arr_i[j] = ...\<close>
  broadcasts the mean image of file \<open>j\<close> to the shape of the mean image of the first
  file.
\<close>

fun image_broadcast_to :: "image \<Rightarrow> nat list \<Rightarrow> py_error + image" where
  "image_broadcast_to (MeanImage a) sh = err_bind (np_broadcast_to a sh) (\<lambda>b. Inr (MeanImage b))"
| "image_broadcast_to (NanImage s) sh =
     (if broadcast_shapes s sh = Some sh then Inr (NanImage sh) else Inl ValueError)"

fun xs_mean_for_ip_steps ::
  "file_system \<Rightarrow> int \<Rightarrow> nat \<Rightarrow> (string list \<times> nat) list
     \<Rightarrow> (nat list \<times> image list) option \<Rightarrow> py_error + (nat list \<times> image list) option" where
  "xs_mean_for_ip_steps fs n_gpu i [] xs_mean_for_ip_arr_i = Inr xs_mean_for_ip_arr_i"
| "xs_mean_for_ip_steps fs n_gpu i (train_file # train_files) xs_mean_for_ip_arr_i =
     err_bind (py_getitem (fst train_file) i) (\<lambda>filepath_j.
     err_bind (get_mean_image fs filepath_j n_gpu) (\<lambda>xs_mean_for_ip_i_step.
       let (sh, filled) =
             (case xs_mean_for_ip_arr_i of
                None \<Rightarrow> (image_shape xs_mean_for_ip_i_step, [])
              | Some arr \<Rightarrow> arr)
       in err_bind (image_broadcast_to xs_mean_for_ip_i_step sh) (\<lambda>row.
            xs_mean_for_ip_steps fs n_gpu i train_files (Some (sh, filled @ [row])))))"

definition np_savez :: "string \<Rightarrow> string \<Rightarrow> npz_file \<Rightarrow> file_system \<Rightarrow> file_system" where
  \<comment> \<open>\<open>np.savez(folder + name, ...)\<close>: the file is written under that path, and is an
     entry of the directory \<open>folder\<close> if \<open>folder\<close> is one and ends with a slash\<close>
  "np_savez folder name npz fs =
     fs\<lparr>npz_files := (npz_files fs)(folder @ name \<mapsto> npz),
        dir_entries :=
          (case dir_entries fs folder of
             Some entries \<Rightarrow>
               if ends_with folder ''/'' \<and> name \<notin> set entries
               then (dir_entries fs)(folder \<mapsto> entries @ [name])
               else dir_entries fs
           | None \<Rightarrow> dir_entries fs)\<rparr>"

text \<open>
  The loop of \<open>load_zero_center_data\<close> over the model inputs that are left, with the
  list \<open>xs_mean\<close> built so far. A mean image that is found in a precalculated file is
  appended in the branch that loads it, and then again by the \<open>append\<close> that ends the
  loop body.
\<close>

fun load_zero_center_inputs ::
  "settings \<Rightarrow> nat list \<Rightarrow> image list \<Rightarrow> file_system
     \<Rightarrow> (py_error + image list) \<times> file_system" where
  "load_zero_center_inputs cfg [] xs_mean fs = (Inr xs_mean, fs)"
| "load_zero_center_inputs cfg (i # inputs) xs_mean fs =
     (let train_files = cfg_train_files cfg;
          zero_center_folder = cfg_zero_center_folder cfg;
          train_files_list_name = basename (cfg_list_file cfg);
          (zero_center_files, fs) =
            load_fpaths_of_existing_zero_center_files zero_center_folder fs
      in case get_fpaths_for_train_files_input_i train_files i of
           Inl e \<Rightarrow> (Inl e, fs)
         | Inr all_train_files_for_ip_i \<Rightarrow>
        (case get_precalculated_xs_mean_if_exists fs zero_center_files
                all_train_files_for_ip_i of
           Inl e \<Rightarrow> (Inl e, fs)
         | Inr (Some xs_mean_for_ip_i) \<Rightarrow>
             load_zero_center_inputs cfg inputs
               ((xs_mean @ [xs_mean_for_ip_i]) @ [xs_mean_for_ip_i]) fs
         | Inr None \<Rightarrow>
             (case xs_mean_for_ip_steps fs (fst (cfg_n_gpu cfg)) i train_files None of
                Inl e \<Rightarrow> (Inl e, fs)
              | Inr None \<Rightarrow> (Inl TypeError, fs)
              | Inr (Some (sh, xs_mean_for_ip_arr_i)) \<Rightarrow>
                  let xs_mean_for_ip_i =
                        (if length train_files > 1 then np_mean_images sh xs_mean_for_ip_arr_i
                         else xs_mean_for_ip_arr_i ! 0);
                      filename = train_files_list_name @ ''_'' @ str_int (int i) @ ''.npz'';
                      fs = np_savez zero_center_folder filename
                             \<lparr>npz_xs_mean = xs_mean_for_ip_i,
                              npz_used_ip_files = all_train_files_for_ip_i\<rparr> fs
                  in load_zero_center_inputs cfg inputs (xs_mean @ [xs_mean_for_ip_i]) fs)))"

definition load_zero_center_data ::
  "settings \<Rightarrow> file_system \<Rightarrow> (py_error + image list) \<times> file_system" where
  "load_zero_center_data cfg fs =
     (case cfg_train_files cfg of
        [] \<Rightarrow> (Inl IndexError, fs)
      | train_file # _ \<Rightarrow> load_zero_center_inputs cfg [0..<length (fst train_file)] [] fs)"

text \<open>
  A small instance: one training file with one model input, and a file system with and
  without a precalculated mean image for that input.
\<close>

definition example_cfg :: settings where
  "example_cfg =
     \<lparr>cfg_train_files = [([''train_xyzt.h5''], 3)], cfg_zero_center_folder = ''zero_center/'',
      cfg_list_file = ''lists/train.list'', cfg_n_gpu = (1, ''avolkov'')\<rparr>"

definition example_h5 :: h5_file where
  "example_h5 =
     \<lparr>x_dataset = \<lparr>ds_row_shape = [2], ds_rows = [[3, 1], [0, 1], [0, 4]]\<rparr>,
      y_dataset = \<lparr>ds_row_shape = [1], ds_rows = [[0], [1], [2]]\<rparr>\<rparr>"

definition fs_with_precalculated :: file_system where
  "fs_with_precalculated =
     \<lparr>dir_entries = [''zero_center/'' \<mapsto> [''train.list_0.npz'']],
      npz_files = [''zero_center/train.list_0.npz'' \<mapsto>
        \<lparr>npz_xs_mean = MeanImage \<lparr>shape = [2], data = [1, 2]\<rparr>,
         npz_used_ip_files = [''train_xyzt.h5'']\<rparr>],
      h5_files = [''train_xyzt.h5'' \<mapsto> example_h5]\<rparr>"

definition fs_without_precalculated :: file_system where
  "fs_without_precalculated =
     \<lparr>dir_entries = Map.empty, npz_files = Map.empty,
      h5_files = [''train_xyzt.h5'' \<mapsto> example_h5]\<rparr>"

section \<open>generate\_batches\_from\_hdf5\_file\<close>

text \<open>
  The dictionaries \<open>f\<close>, \<open>dimensions\<close> and \<open>xs\<close> of the generator have the keys
  \<open>0, ..., n_files - 1\<close>: such a dictionary is the list of its values, and reading a key
  that is not there raises KeyError.
\<close>

definition dict_getitem :: "'a list \<Rightarrow> nat \<Rightarrow> py_error + 'a" where
  "dict_getitem d i = (if i < length d then Inr (d ! i) else Inl KeyError)"

fun err_map :: "('a \<Rightarrow> py_error + 'b) \<Rightarrow> 'a list \<Rightarrow> py_error + 'b list" where
  \<comment> \<open>a loop that collects one result per element and stops at the first exception\<close>
  "err_map g [] = Inr []"
| "err_map g (x # xs) =
     err_bind (g x) (\<lambda>y. err_bind (err_map g xs) (\<lambda>ys. Inr (y # ys)))"

text \<open>
  What one \<open>yield\<close> hands out: \<open>xs_list\<close> (a list of arrays, or the single array of the
  branch \<open>'xyz-t_and_xyz-c_single_input'\<close>), the labels \<open>ys\<close> (a dictionary of
  regression labels or the array of encoded classes), and \<open>y_values\<close> if
  \<open>yield_mc_info\<close> is set.
\<close>

datatype xs_out = XsList "ndarray list" | XsArray ndarray

datatype labels = RegressionLabels "(string \<times> array2d) list" | CategoricalLabels array2d

record batch =
  batch_xs :: xs_out
  batch_ys :: labels
  batch_mc_info :: "array2d option"

definition swap_4d_channels_dict :: "(string \<times> nat list) list" where
  "swap_4d_channels_dict =
     [(''yzt-x'', [0, 2, 3, 4, 1]), (''xyt-z'', [0, 1, 2, 4, 3]),
      (''t-xyz'', [0, 4, 1, 2, 3]), (''tyz-x'', [0, 4, 2, 3, 1])]"

definition swap_axes :: "string \<Rightarrow> py_error + nat list" where
  \<comment> \<open>\<open>swap_4d_channels_dict[key]\<close>\<close>
  "swap_axes key =
     (case map_of swap_4d_channels_dict key of None \<Rightarrow> Inl KeyError | Some axes \<Rightarrow> Inr axes)"

text \<open>
  The first loop of the body: the slice of every file's \<open>x\<close>, reshaped and converted to
  float32.
\<close>

definition read_xs ::
  "h5_file list \<Rightarrow> nat list list \<Rightarrow> nat \<Rightarrow> nat \<Rightarrow> py_error + ndarray list" where
  "read_xs f dimensions batchsize n_entries =
     err_map (\<lambda>i.
        err_bind (dict_getitem f i) (\<lambda>f_i.
        err_bind (dict_getitem dimensions i) (\<lambda>dimensions_i.
        err_bind
          (np_reshape
             (concat (py_slice n_entries (n_entries + batchsize) (ds_rows (x_dataset f_i))))
             dimensions_i)
          (\<lambda>xs_i. Inr (nd_astype_float32 xs_i)))))
       [0..<length f]"

text \<open>The second loop: the mean image of every input is subtracted, if there is one.\<close>

definition zero_center ::
  "ndarray list \<Rightarrow> ndarray list option \<Rightarrow> py_error + ndarray list" where
  "zero_center xs zero_center_image =
     (case zero_center_image of
        None \<Rightarrow> Inr xs
      | Some images \<Rightarrow>
          err_map (\<lambda>i.
             err_bind (dict_getitem xs i) (\<lambda>xs_i.
             err_bind (py_getitem images i) (\<lambda>image_i. np_subtract xs_i image_i)))
            [0..<length xs])"

text \<open>
  The branches on \<open>swap_col\<close>. In the first branch the code hands the dictionary
  \<open>xs\<close> itself to \<open>np.transpose\<close>, which raises ValueError (the axes do not match the
  zero-dimensional array that numpy makes of a dictionary).
\<close>

definition make_xs_list :: "ndarray list \<Rightarrow> string option \<Rightarrow> string \<Rightarrow> py_error + xs_out" where
  "make_xs_list xs swap_col str_ident =
     (case swap_col of
        None \<Rightarrow> Inr (XsList xs)
      | Some swap_col \<Rightarrow>
          if swap_col = ''yzt-x'' \<or> swap_col = ''xyt-z'' then
            err_bind (swap_axes swap_col) (\<lambda>axes. Inl ValueError)
          else if swap_col = ''xyz-t_and_yzt-x'' then
            err_bind (dict_getitem xs 0) (\<lambda>xs_0.
            err_bind (swap_axes ''yzt-x'') (\<lambda>axes.
            err_bind (np_transpose xs_0 axes) (\<lambda>xs_yzt_x.
              Inr (XsList [xs_0, xs_yzt_x]))))
          else if str_contains (swap_col @ str_ident)
                    (''xyz-t_and_yzt-x'' @ ''multi_input_single_train_tight-1_tight-2'') then
            err_bind (dict_getitem xs 0) (\<lambda>xs_0.
            err_bind (swap_axes ''yzt-x'') (\<lambda>axes.
            err_bind (np_transpose xs_0 axes) (\<lambda>xs_yzt_x_tight_1.
            err_bind (dict_getitem xs 1) (\<lambda>xs_1.
            err_bind (swap_axes ''yzt-x'') (\<lambda>axes.
            err_bind (np_transpose xs_1 axes) (\<lambda>xs_yzt_x_tight_2.
              Inr (XsList [xs_0, xs_yzt_x_tight_1, xs_1, xs_yzt_x_tight_2])))))))
          else if swap_col = ''xyz-t_and_xyz-c_single_input'' then
            err_bind (dict_getitem xs 0) (\<lambda>xs_0.
            err_bind (dict_getitem xs 1) (\<lambda>xs_1.
            err_bind (np_concatenate_last xs_0 xs_1) (\<lambda>xyz_t_and_xyz_c.
              Inr (XsArray xyz_t_and_xyz_c))))
          else Inl ValueError)"

text \<open>
  The labels are read from the first file: the slice of its \<open>y\<close>, reshaped to
  \<open>(batchsize, y_values.shape[1])\<close>.
\<close>

definition read_y_values :: "h5_file list \<Rightarrow> nat \<Rightarrow> nat \<Rightarrow> py_error + array2d" where
  "read_y_values f batchsize n_entries =
     err_bind (dict_getitem f 0) (\<lambda>f_0.
       let y_values = py_slice n_entries (n_entries + batchsize) (ds_rows (y_dataset f_0))
       in err_bind (py_getitem (ds_row_shape (y_dataset f_0)) 0) (\<lambda>n_columns.
            if length (concat y_values) = batchsize * n_columns
            then Inr \<lparr>n_cols = n_columns,
                      rows2d = map (\<lambda>j. take n_columns (drop (j * n_columns) (concat y_values)))
                                   [0..<batchsize]\<rparr>
            else Inl ValueError))"

text \<open>
  \<open>ys[c] = encode_targets(y_val, class_type)\<close> assigns a vector to a row of
  \<open>class_type[0]\<close> entries: it has to have that length, or length 1. (\<open>ys\<close> is a float32
  array; in this branch the vectors that \<open>encode_targets\<close> returns hold zeros and ones.)
\<close>

definition make_ys :: "bool \<Rightarrow> array2d \<Rightarrow> nat \<times> string \<Rightarrow> py_error + labels" where
  "make_ys coin y_values class_type =
     (if snd class_type \<noteq> ''track-shower'' then
        err_bind (get_regression_labels y_values class_type) (\<lambda>ys. Inr (RegressionLabels ys))
      else
        err_bind
          (err_map (\<lambda>y_val.
              err_bind (encode_targets coin y_val class_type) (\<lambda>train_y.
                if length train_y = fst class_type then Inr train_y
                else if length train_y = 1 then Inr (replicate (fst class_type) (train_y ! 0))
                else Inl ValueError))
             (rows2d y_values))
          (\<lambda>ys. Inr (CategoricalLabels \<lparr>n_cols = fst class_type, rows2d = ys\<rparr>)))"

text \<open>The body of the inner loop, for the value \<open>n_entries\<close> at its start.\<close>

definition make_batch ::
  "h5_file list \<Rightarrow> nat list list \<Rightarrow> nat \<Rightarrow> nat \<times> string \<Rightarrow> string \<Rightarrow> ndarray list option
     \<Rightarrow> bool \<Rightarrow> string option \<Rightarrow> bool \<Rightarrow> nat \<Rightarrow> py_error + batch" where
  "make_batch f dimensions batchsize class_type str_ident zero_center_image yield_mc_info
       swap_col coin n_entries =
     err_bind (read_xs f dimensions batchsize n_entries) (\<lambda>xs.
     err_bind (zero_center xs zero_center_image) (\<lambda>xs.
     err_bind (make_xs_list xs swap_col str_ident) (\<lambda>xs_list.
     err_bind (read_y_values f batchsize n_entries) (\<lambda>y_values.
     err_bind (make_ys coin y_values class_type) (\<lambda>ys.
       Inr \<lparr>batch_xs = xs_list, batch_ys = ys,
            batch_mc_info = (if yield_mc_info then Some y_values else None)\<rparr>)))))"

text \<open>
  One pass of the inner loop \<open>while n_entries <= (f_size - batchsize)\<close>, from the value
  of \<open>n_entries\<close> and the batches yielded so far. The result is the list of the batches
  yielded and, if the body raised, the exception that ended the generator. With
  \<open>batchsize = 0\<close> the loop does not end, and the result is \<open>None\<close>.
\<close>

partial_function (option) inner_loop ::
  "h5_file list \<Rightarrow> nat list list \<Rightarrow> nat \<Rightarrow> nat \<times> string \<Rightarrow> string \<Rightarrow> ndarray list option
     \<Rightarrow> bool \<Rightarrow> string option \<Rightarrow> bool \<Rightarrow> nat \<Rightarrow> nat \<Rightarrow> batch list
     \<Rightarrow> (batch list \<times> py_error option) option" where
  "inner_loop f dimensions batchsize class_type str_ident zero_center_image yield_mc_info
       swap_col coin f_size n_entries yielded =
     (if int n_entries \<le> int f_size - int batchsize then
        (case make_batch f dimensions batchsize class_type str_ident zero_center_image
                yield_mc_info swap_col coin n_entries of
           Inl e \<Rightarrow> Some (yielded, Some e)
         | Inr output \<Rightarrow>
             inner_loop f dimensions batchsize class_type str_ident zero_center_image
               yield_mc_info swap_col coin f_size (n_entries + batchsize) (yielded @ [output]))
      else Some (yielded, None))"

declare inner_loop.simps [code]

text \<open>
  The generator up to the end of the first pass of the inner loop: the dimensions, the
  opened files, the default of \<open>f_size\<close>, and the pass. (The outer \<open>while 1\<close> then closes
  the files and starts over, for ever.)
\<close>

definition first_pass ::
  "file_system \<Rightarrow> string list \<Rightarrow> nat \<Rightarrow> nat list list \<Rightarrow> nat \<times> string \<Rightarrow> string
     \<Rightarrow> nat option \<Rightarrow> ndarray list option \<Rightarrow> bool \<Rightarrow> string option \<Rightarrow> bool
     \<Rightarrow> (batch list \<times> py_error option) option" where
  "first_pass fs filepath batchsize n_bins class_type str_ident f_size zero_center_image
       yield_mc_info swap_col coin =
     (case err_map (\<lambda>i. err_bind (py_getitem n_bins i)
                            (\<lambda>n_bins_i. get_dimensions_encoding n_bins_i batchsize))
             [0..<length filepath] of
        Inl e \<Rightarrow> Some ([], Some e)
      | Inr dimensions \<Rightarrow>
     (case err_map (\<lambda>path. case h5_files fs path of None \<Rightarrow> Inl OSError | Some h \<Rightarrow> Inr h)
             filepath of
        Inl e \<Rightarrow> Some ([], Some e)
      | Inr f \<Rightarrow>
     (case (case f_size of
              None \<Rightarrow> err_bind (dict_getitem f 0) (\<lambda>f_0. Inr (length (ds_rows (y_dataset f_0))))
            | Some n \<Rightarrow> Inr n) of
        Inl e \<Rightarrow> Some ([], Some e)
      | Inr f_size \<Rightarrow>
          inner_loop f dimensions batchsize class_type str_ident zero_center_image
            yield_mc_info swap_col coin f_size 0 [])))"

text \<open>A file of five events, with two bins per image and eight label columns.\<close>

definition example_events :: h5_file where
  "example_events =
     \<lparr>x_dataset = \<lparr>ds_row_shape = [1, 1, 1, 2],
                    ds_rows = [[0, 1], [2, 3], [4, 5], [6, 7], [8, 9]]\<rparr>,
      y_dataset = \<lparr>ds_row_shape = [8],
                    ds_rows = [[0, 12, 10, 0, 1 / 2, 0, 0, 1],
                               [1, - 14, 20, 1, 1 / 4, 1, 0, 0],
                               [2, 16, 30, 1, 1 / 2, 0, 1, 0],
                               [3, 12, 40, 1, 1 / 4, 0, 0, - 1],
                               [4, 14, 50, 1, 1 / 2, 0, 1, 0]]\<rparr>\<rparr>"


section \<open>Properties\<close>

lemma length_concat_uniform:
  "(\<And>r. r \<in> set rs \<Longrightarrow> length r = w) \<Longrightarrow> length (concat rs) = length rs * w"
  by (induction rs) auto

text \<open>
  Claim C9. For a tuple \<open>n_bins\<close> of four bin counts, \<open>get_dimensions_encoding\<close> returns
  a dimensions tuple whose entries multiply to
  \<open>batchsize * n_bins[0] * n_bins[1] * n_bins[2] * n_bins[3]\<close>: a dimension is left out
  only where its bin count is 1. So the entries of \<open>batchsize\<close> rows, each holding one
  value per bin, can always be reshaped to these dimensions. (The statement does not
  need the bin counts or the batch size to be positive.)
\<close>

theorem get_dimensions_encoding_size:
  assumes "length n_bins = 4"
  shows "\<exists>dims. get_dimensions_encoding n_bins batchsize = Inr dims
           \<and> prod_list dims = batchsize * n_bins ! 0 * n_bins ! 1 * n_bins ! 2 * n_bins ! 3
           \<and> (\<forall>slice. length slice = batchsize
                  \<and> (\<forall>r \<in> set slice. length r = n_bins ! 0 * n_bins ! 1 * n_bins ! 2 * n_bins ! 3)
                \<longrightarrow> np_reshape (concat slice) dims = Inr \<lparr>shape = dims, data = concat slice\<rparr>)"
proof -
  from assms obtain nx ny nz nt where nb: "n_bins = [nx, ny, nz, nt]"
    by (auto simp: length_Suc_conv numeral_eq_Suc)
  obtain dims where d: "get_dimensions_encoding n_bins batchsize = Inr dims"
    by (simp add: nb get_dimensions_encoding_def py_getitem_def)
  have p: "prod_list dims = batchsize * nx * ny * nz * nt"
    using d by (auto simp: nb get_dimensions_encoding_def py_getitem_def split: if_splits)
  have "np_reshape (concat slice) dims = Inr \<lparr>shape = dims, data = concat slice\<rparr>"
    if "length slice = batchsize" "\<forall>r \<in> set slice. length r = nx * ny * nz * nt" for slice
  proof -
    have "length (concat slice) = length slice * (nx * ny * nz * nt)"
      using that(2) by (intro length_concat_uniform) simp
    then show ?thesis using p that(1) by (simp add: np_reshape_def)
  qed
  then show ?thesis using d p by (simp add: nb)
qed

theorem get_dimensions_encoding_size_witness:
  "length [11, 13, 18, 1 :: nat] = 4
   \<and> get_dimensions_encoding [11, 13, 18, 1] 32 = Inr [32, 11, 13, 18, 1]
   \<and> prod_list [32, 11, 13, 18, 1 :: nat] = 32 * 11 * 13 * 18 * 1"
  using get_dimensions_encoding_size [of "[11, 13, 18, 1]" 32]
  by (simp add: get_dimensions_encoding_def py_getitem_def)

subsection \<open>Labels\<close>

lemma replicate_two: "replicate 2 x = [x, x]"
  by (simp add: numeral_2_eq_2)

lemma convert_categorical_known:
  assumes "(\<bar>pt\<bar>, cc) \<in> {(12, 0), (12, 1), (14, 1), (16, 1)}"
  shows "convert_particle_class_to_categorical pt cc 4 =
           Inr (if \<bar>pt\<bar> = 12 \<and> cc = 0 then [1, 0, 0, 0]
                else if \<bar>pt\<bar> = 12 \<and> cc = 1 then [0, 1, 0, 0]
                else if \<bar>pt\<bar> = 14 then [0, 0, 1, 0] else [0, 0, 0, 1])"
  using assms
  by (auto simp: convert_particle_class_to_categorical_def particle_type_dict_def
        py_setitem_def numeral_eq_Suc)

text \<open>
  Claim C4. For \<open>class_type = (2, 'track-shower')\<close> and an event row whose pair
  \<open>(|particle_type|, is_cc)\<close> (columns 1 and 3) is one of (12,0), (12,1), (14,1),
  (16,1), \<open>encode_targets\<close> returns a vector of length 2 in which entry 1 is 1 exactly
  for a muon-CC event (\<open>|particle_type| = 14\<close>, \<open>is_cc = 1\<close>, a track) and entry 0 is 1
  in every other case (a shower); exactly one entry is 1, the other is 0.
\<close>

theorem encode_targets_track_shower:
  assumes "py_getitem y_val 1 = Inr particle_type"
    and "py_getitem y_val 3 = Inr is_cc"
    and "(\<bar>particle_type\<bar>, is_cc) \<in> {(12, 0), (12, 1), (14, 1), (16, 1)}"
  shows "\<exists>train_y. encode_targets coin y_val (2, ''track-shower'') = Inr train_y
           \<and> length train_y = 2
           \<and> (train_y ! 1 = 1 \<longleftrightarrow> \<bar>particle_type\<bar> = 14 \<and> is_cc = 1)
           \<and> (train_y ! 0 = 1 \<longleftrightarrow> \<not> (\<bar>particle_type\<bar> = 14 \<and> is_cc = 1))
           \<and> train_y = (if \<bar>particle_type\<bar> = 14 \<and> is_cc = 1 then [0, 1] else [1, 0])
           \<and> length (filter (\<lambda>v. v = 1) train_y) = 1"
proof -
  let ?track = "\<bar>particle_type\<bar> = 14 \<and> is_cc = 1"
  have "encode_targets coin y_val (2, ''track-shower'')
          = Inr (if ?track then [0, 1] else [1, 0])"
    using assms
    by (auto simp: encode_targets_def convert_categorical_known py_setitem_def replicate_two)
  then show ?thesis by auto
qed

theorem encode_targets_track_shower_witness:
  "encode_targets False [7, - 14, 35.5, 1, 0.25, 0, 0, 1] (2, ''track-shower'') = Inr [0, 1]
   \<and> encode_targets False [8, 12, 3, 0, 0.5, 0, 0, 1] (2, ''track-shower'') = Inr [1, 0]"
  using encode_targets_track_shower [of "[7, - 14, 35.5, 1, 0.25, 0, 0, 1]" "- 14" 1 False]
    encode_targets_track_shower [of "[8, 12, 3, 0, 0.5, 0, 0, 1]" 12 0 False]
  by (simp add: py_getitem_def)

text \<open>
  Claim C10. For a class type whose identifier is none of \<open>'track-shower'\<close>,
  \<open>'up_down'\<close>, \<open>'tau-CC_vs_other_neutrinos'\<close>, \<open>encode_targets\<close> raises nothing and
  returns the event array \<open>y_val\<close> it was given, unchanged.
\<close>

theorem encode_targets_unsupported:
  assumes "snd class_type \<notin> {''track-shower'', ''up_down'', ''tau-CC_vs_other_neutrinos''}"
  shows "encode_targets coin y_val class_type = Inr y_val"
  using assms by (simp add: encode_targets_def)

theorem encode_targets_unsupported_witness:
  "encode_targets True [1, 14, 2.5] (4, ''muon-CC_to_elec-CC'') = Inr [1, 14, 2.5]"
  using encode_targets_unsupported [of "(4, ''muon-CC_to_elec-CC'')" True "[1, 14, 2.5]"]
  by simp

lemma py_slice_single:
  "hi = Suc lo \<Longrightarrow> py_slice lo hi xs = (if lo < length xs then [xs ! lo] else [])"
  by (auto simp: py_slice_def take_Suc_conv_app_nth hd_drop_conv_nth take_Suc)

lemma rows2d_col_slice_nth:
  "j < length (rows2d y) \<Longrightarrow>
     rows2d (col_slice lo hi (y\<lparr>rows2d := map f (rows2d y)\<rparr>)) ! j
       = py_slice lo hi (f (rows2d y ! j))"
  by (simp add: col_slice_def)

lemma rows2d_col_slice_nth_raw:
  "j < length (rows2d y) \<Longrightarrow> rows2d (col_slice lo hi y) ! j = py_slice lo hi (rows2d y ! j)"
  by (simp add: col_slice_def)

lemma labels_after_correction:
  assumes w: "5 \<le> n_cols y" and len: "\<And>j. j < length (rows2d y) \<Longrightarrow> 5 \<le> length (rows2d y ! j)"
    and d: "dict = ys_errors \<or> dict = ys_vtx_errors"
  shows "\<exists>c. correct_elec_nc y = Inr c
         \<and> map_of (dict c) ''e'' = Some (col_slice 2 3 c)
         \<and> map_of (dict c) ''by'' = Some (col_slice 4 5 c)
         \<and> length (rows2d (col_slice 2 3 c)) = length (rows2d y)
         \<and> length (rows2d (col_slice 4 5 c)) = length (rows2d y)
         \<and> (\<forall>j < length (rows2d y).
              let r = rows2d y ! j
              in if \<bar>r ! 1\<bar> = 12 \<and> r ! 3 = 0
                 then rows2d (col_slice 2 3 c) ! j = [float32_round (r ! 2 * r ! 4)]
                    \<and> rows2d (col_slice 4 5 c) ! j = [1]
                 else rows2d (col_slice 2 3 c) ! j = [r ! 2]
                    \<and> rows2d (col_slice 4 5 c) ! j = [r ! 4]
                    \<and> same_labels_at j (dict c) (dict y))"
proof -
  let ?f = "\<lambda>r. if elec_nc_bool_id r
                 then (r[2 := float32_round (r ! 2 * r ! 4)])[4 := 1] else r"
  let ?c = "y\<lparr>rows2d := map ?f (rows2d y)\<rparr>"
  have c: "correct_elec_nc y = Inr ?c"
    using w by (simp add: correct_elec_nc_def)
  from d show ?thesis
  proof
    assume "dict = ys_errors"
    then show ?thesis
      unfolding c
      by (auto simp: ys_errors_def Let_def same_labels_at_def rows2d_col_slice_nth
          rows2d_col_slice_nth_raw py_slice_single elec_nc_bool_id_def col_slice_def
          dest: len)
  next
    assume "dict = ys_vtx_errors"
    then show ?thesis
      unfolding c
      by (auto simp: ys_vtx_errors_def Let_def same_labels_at_def rows2d_col_slice_nth
          rows2d_col_slice_nth_raw py_slice_single elec_nc_bool_id_def col_slice_def
          dest: len)
  qed
qed

lemma astype_float32_exact:
  "(\<And>r v. r \<in> set (rows2d a) \<Longrightarrow> v \<in> set r \<Longrightarrow> float32_round v = v) \<Longrightarrow> astype_float32 a = a"
  by (simp add: astype_float32_def map_idI)

lemma float32_round_values:
  "float32_round 16777217 = 16777216" "float32_round 14 = 14" "float32_round (1 / 2) = 1 / 2"
  "float32_round 1 = 1" "float32_round (- 12) = - 12" "float32_round (1 / 10) = 13421773 / 134217728"
  by code_simp+

lemma get_regression_labels_large_energy:
  "get_regression_labels \<lparr>n_cols = 8, rows2d = [[0, 14, 16777217, 1, 1 / 2, 0, 0, 1]]\<rparr>
     (5, ''energy_dir_bjorken-y_errors'')
   = Inr (ys_errors \<lparr>n_cols = 8, rows2d = [[0, 14, 16777216, 1, 1 / 2, 0, 0, 1]]\<rparr>)"
  by code_simp

text \<open>
  Claim C5, as stated, fails: the labels are float32 values. A muon-CC event whose
  energy is stored as 16777217 (a float64 value that float32 does not have) gets the
  energy label 16777216, not the value read from the file.
\<close>

theorem get_regression_labels_float32_counterexample:
  "\<exists>ys e_label.
     get_regression_labels \<lparr>n_cols = 8, rows2d = [[0, 14, 16777217, 1, 1 / 2, 0, 0, 1]]\<rparr>
       (5, ''energy_dir_bjorken-y_errors'') = Inr ys
   \<and> map_of ys ''e'' = Some e_label
   \<and> rows2d e_label = [[16777216]]
   \<and> [[0, 14, 16777217, 1, 1 / 2, 0, 0, 1 :: real]] ! 0 ! 2 = 16777217
   \<and> [[0, 14, 16777217, 1, 1 / 2, 0, 0, 1 :: real]] ! 0 ! 1 = 14"
  unfolding get_regression_labels_large_energy
  by (simp add: ys_errors_def col_slice_def py_slice_def)

text \<open>
  Claim C5, amended. For \<open>class_type[1]\<close> equal to \<open>'energy_dir_bjorken-y_errors'\<close> or
  \<open>'energy_dir_bjorken-y_vtx_errors'\<close>, and an array \<open>y_values\<close> of at least five
  columns whose entries, and whose products of energy and bjorken-y, stay in the finite
  range of float32, \<open>get_regression_labels\<close> returns a dictionary of float32 labels.
  With \<open>r\<close> the float32 conversion of the row of an event: if \<open>|particle_type| = 12\<close> and
  \<open>is_cc = 0\<close> in \<open>r\<close>, the energy label \<open>e\<close> is the float32 product of energy and
  bjorken-y of \<open>r\<close> and the label \<open>by\<close> is 1; for every other event the energy and
  bjorken-y labels are those of \<open>r\<close>, and so is every label of the dictionary: on that
  event it agrees with the dictionary filled from the converted array. (Where the file
  holds float32 values the conversion changes nothing, by \<open>astype_float32_exact\<close>.)
\<close>

theorem get_regression_labels_elec_nc:
  assumes ct: "snd class_type = ''energy_dir_bjorken-y_errors''
               \<or> snd class_type = ''energy_dir_bjorken-y_vtx_errors''"
    and w: "5 \<le> n_cols y_values"
    and rect: "\<forall>r \<in> set (rows2d y_values). length r = n_cols y_values"
    and finite: "\<forall>r \<in> set (rows2d y_values). \<forall>v \<in> set r. float32_finite v"
    and finite_product:
      "\<forall>r \<in> set (rows2d y_values).
         elec_nc_bool_id (map float32_round r)
           \<longrightarrow> float32_finite (float32_round (r ! 2) * float32_round (r ! 4))"
  shows "\<exists>ys e_label by_label.
           get_regression_labels y_values class_type = Inr ys
         \<and> map_of ys ''e'' = Some e_label \<and> map_of ys ''by'' = Some by_label
         \<and> length (rows2d e_label) = length (rows2d y_values)
         \<and> length (rows2d by_label) = length (rows2d y_values)
         \<and> (\<forall>j < length (rows2d y_values).
              let r = map float32_round (rows2d y_values ! j)
              in if \<bar>r ! 1\<bar> = 12 \<and> r ! 3 = 0
                 then rows2d e_label ! j = [float32_round (r ! 2 * r ! 4)]
                    \<and> rows2d by_label ! j = [1]
                 else rows2d e_label ! j = [r ! 2] \<and> rows2d by_label ! j = [r ! 4]
                    \<and> same_labels_at j ys
                         (if snd class_type = ''energy_dir_bjorken-y_errors''
                          then ys_errors (astype_float32 y_values)
                          else ys_vtx_errors (astype_float32 y_values)))"
proof -
  let ?y = "astype_float32 y_values"
  let ?dict = "if snd class_type = ''energy_dir_bjorken-y_errors''
               then ys_errors else ys_vtx_errors"
  have n: "n_cols ?y = n_cols y_values" "length (rows2d ?y) = length (rows2d y_values)"
    by (simp_all add: astype_float32_def)
  have row: "rows2d ?y ! j = map float32_round (rows2d y_values ! j)"
    if "j < length (rows2d y_values)" for j
    using that by (simp add: astype_float32_def)
  have len: "5 \<le> length (rows2d ?y ! j)" if "j < length (rows2d ?y)" for j
    using that rect w by (simp add: n row)
  have d: "?dict = ys_errors \<or> ?dict = ys_vtx_errors"
    by simp
  from labels_after_correction [OF _ len d] w obtain c where
    c: "correct_elec_nc ?y = Inr c"
    and e: "map_of (?dict c) ''e'' = Some (col_slice 2 3 c)"
    and b: "map_of (?dict c) ''by'' = Some (col_slice 4 5 c)"
    and le: "length (rows2d (col_slice 2 3 c)) = length (rows2d ?y)"
    and lb: "length (rows2d (col_slice 4 5 c)) = length (rows2d ?y)"
    and rows: "\<forall>j < length (rows2d ?y).
              let r = rows2d ?y ! j
              in if \<bar>r ! 1\<bar> = 12 \<and> r ! 3 = 0
                 then rows2d (col_slice 2 3 c) ! j = [float32_round (r ! 2 * r ! 4)]
                    \<and> rows2d (col_slice 4 5 c) ! j = [1]
                 else rows2d (col_slice 2 3 c) ! j = [r ! 2]
                    \<and> rows2d (col_slice 4 5 c) ! j = [r ! 4]
                    \<and> same_labels_at j (?dict c) (?dict ?y)"
    unfolding n by blast
  have g: "get_regression_labels y_values class_type = Inr (?dict c)"
    using ct by (auto simp: get_regression_labels_def Let_def c)
  have rows': "\<forall>j < length (rows2d y_values).
              let r = map float32_round (rows2d y_values ! j)
              in if \<bar>r ! 1\<bar> = 12 \<and> r ! 3 = 0
                 then rows2d (col_slice 2 3 c) ! j = [float32_round (r ! 2 * r ! 4)]
                    \<and> rows2d (col_slice 4 5 c) ! j = [1]
                 else rows2d (col_slice 2 3 c) ! j = [r ! 2]
                    \<and> rows2d (col_slice 4 5 c) ! j = [r ! 4]
                    \<and> same_labels_at j (?dict c) (?dict ?y)"
  proof (intro allI impI)
    fix j assume j: "j < length (rows2d y_values)"
    with rows have "let r = rows2d ?y ! j
              in if \<bar>r ! 1\<bar> = 12 \<and> r ! 3 = 0
                 then rows2d (col_slice 2 3 c) ! j = [float32_round (r ! 2 * r ! 4)]
                    \<and> rows2d (col_slice 4 5 c) ! j = [1]
                 else rows2d (col_slice 2 3 c) ! j = [r ! 2]
                    \<and> rows2d (col_slice 4 5 c) ! j = [r ! 4]
                    \<and> same_labels_at j (?dict c) (?dict ?y)"
      by (simp only: n)
    then show "let r = map float32_round (rows2d y_values ! j)
              in if \<bar>r ! 1\<bar> = 12 \<and> r ! 3 = 0
                 then rows2d (col_slice 2 3 c) ! j = [float32_round (r ! 2 * r ! 4)]
                    \<and> rows2d (col_slice 4 5 c) ! j = [1]
                 else rows2d (col_slice 2 3 c) ! j = [r ! 2]
                    \<and> rows2d (col_slice 4 5 c) ! j = [r ! 4]
                    \<and> same_labels_at j (?dict c) (?dict ?y)"
      by (simp only: row [OF j])
  qed
  have dict: "?dict ?y = (if snd class_type = ''energy_dir_bjorken-y_errors''
                          then ys_errors ?y else ys_vtx_errors ?y)"
    by simp
  show ?thesis
    using g e b le lb rows' unfolding n dict by blast
qed

lemma get_regression_labels_example:
  "get_regression_labels
     \<lparr>n_cols = 8, rows2d = [[1, 12, 10, 0, 1 / 10, 0, 0, 1], [2, - 14, 20, 1, 1 / 4, 1, 0, 0]]\<rparr>
     (5, ''energy_dir_bjorken-y_errors'')
   = Inr (ys_errors
     \<lparr>n_cols = 8, rows2d = [[1, 12, 1, 0, 1, 0, 0, 1], [2, - 14, 20, 1, 1 / 4, 1, 0, 0]]\<rparr>)"
  by code_simp

theorem get_regression_labels_elec_nc_witness:
  "\<exists>ys e_label by_label.
     get_regression_labels
       \<lparr>n_cols = 8, rows2d = [[1, 12, 10, 0, 1 / 10, 0, 0, 1], [2, - 14, 20, 1, 1 / 4, 1, 0, 0]]\<rparr>
       (5, ''energy_dir_bjorken-y_errors'') = Inr ys
   \<and> map_of ys ''e'' = Some e_label \<and> map_of ys ''by'' = Some by_label
   \<and> rows2d e_label = [[1], [20]] \<and> rows2d by_label = [[1], [1 / 4]]"
proof -
  let ?y = "\<lparr>n_cols = 8,
             rows2d = [[1, 12, 10, 0, 1 / 10, 0, 0, 1], [2, - 14, 20, 1, 1 / 4, 1, 0, 0 :: real]]\<rparr>"
  have ct: "snd (5 :: nat, ''energy_dir_bjorken-y_errors'') = ''energy_dir_bjorken-y_errors''
            \<or> snd (5 :: nat, ''energy_dir_bjorken-y_errors'') = ''energy_dir_bjorken-y_vtx_errors''"
    by simp
  have w: "5 \<le> n_cols ?y"
    by simp
  have rect: "\<forall>r \<in> set (rows2d ?y). length r = n_cols ?y"
    by simp
  have finite: "\<forall>r \<in> set (rows2d ?y). \<forall>v \<in> set r. float32_finite v"
    by code_simp
  have finite_product: "\<forall>r \<in> set (rows2d ?y).
         elec_nc_bool_id (map float32_round r)
           \<longrightarrow> float32_finite (float32_round (r ! 2) * float32_round (r ! 4))"
    by code_simp
  have "\<exists>ys e_label by_label.
     get_regression_labels ?y (5, ''energy_dir_bjorken-y_errors'') = Inr ys
     \<and> map_of ys ''e'' = Some e_label \<and> map_of ys ''by'' = Some by_label"
    using get_regression_labels_elec_nc [OF ct w rect finite finite_product] by blast
  then show ?thesis
    unfolding get_regression_labels_example
    by (auto simp: ys_errors_def col_slice_def py_slice_def)
qed

subsection \<open>Building, loading and parallelising a model\<close>

lemma err_bind_Inr: "err_bind m f = Inr y \<longleftrightarrow> (\<exists>x. m = Inr x \<and> f x = Inr y)"
  by (cases m) auto

text \<open>
  Claim C7. In mode \<open>'avolkov'\<close>, \<open>parallelize_model_to_n_gpus\<close> returns the model and
  the batch size it was given when \<open>n_gpu[0] = 1\<close>; when \<open>n_gpu[0] > 1\<close> it returns the
  parallelised, compiled model and the batch size multiplied by the number of GPUs that
  \<open>get_available_gpus\<close> lists. For every other mode it raises ValueError.
\<close>

theorem parallelize_model_to_n_gpus_cases:
  "(n = 1 \<longrightarrow>
      parallelize_model_to_n_gpus get_available_gpus model (n, ''avolkov'') batchsize
        loss_functions optimizer metrics loss_weight = Inr (model, batchsize))
   \<and> (n > 1 \<longrightarrow>
      parallelize_model_to_n_gpus get_available_gpus model (n, ''avolkov'') batchsize
        loss_functions optimizer metrics loss_weight
      = Inr (Compiled (Parallel model (get_available_gpus n))
               \<lparr>arg_loss = loss_functions, arg_optimizer = optimizer,
                arg_metrics = metrics, arg_loss_weights = loss_weight\<rparr>,
             batchsize * length (get_available_gpus n)))
   \<and> (mode \<noteq> ''avolkov'' \<longrightarrow>
      parallelize_model_to_n_gpus get_available_gpus model (n, mode) batchsize
        loss_functions optimizer metrics loss_weight = Inl ValueError)"
  by (simp add: parallelize_model_to_n_gpus_def Let_def)

theorem parallelize_model_to_n_gpus_cases_witness:
  "parallelize_model_to_n_gpus (\<lambda>n. [''/gpu:0'', ''/gpu:1'', ''/gpu:2''])
       (LoadedModel ''m.h5'') (1, ''avolkov'') 32 [] Adam [] []
     = Inr (LoadedModel ''m.h5'', 32)
   \<and> parallelize_model_to_n_gpus (\<lambda>n. [''/gpu:0'', ''/gpu:1'', ''/gpu:2''])
       (LoadedModel ''m.h5'') (4, ''avolkov'') 32 [] Adam [] []
     = Inr (Compiled (Parallel (LoadedModel ''m.h5'') [''/gpu:0'', ''/gpu:1'', ''/gpu:2''])
              \<lparr>arg_loss = [], arg_optimizer = Adam, arg_metrics = [], arg_loss_weights = []\<rparr>,
            96)
   \<and> parallelize_model_to_n_gpus (\<lambda>n. [''/gpu:0'', ''/gpu:1'', ''/gpu:2''])
       (LoadedModel ''m.h5'') (1, ''keras'') 32 [] Adam [] []
     = Inl ValueError"
  using parallelize_model_to_n_gpus_cases
      [of 1 "\<lambda>n. [''/gpu:0'', ''/gpu:1'', ''/gpu:2'']" "LoadedModel ''m.h5''" 32 "[]" Adam "[]" "[]"
          "''keras''"]
    parallelize_model_to_n_gpus_cases
      [of 4 "\<lambda>n. [''/gpu:0'', ''/gpu:1'', ''/gpu:2'']" "LoadedModel ''m.h5''" 32 "[]" Adam "[]" "[]"
          "''keras''"]
  by simp

lemma str_nat_1: "str_nat (Suc 0) = ''1''"
  by (simp add: str_nat.simps digit_chars_def)

lemma build_or_load_resume_two_gpus:
  "build_or_load_nn_model [] (\<lambda>n. [''/gpu:0'', ''/gpu:1'']) (1, 1) ''run'' ''VGG''
       [[11, 13, 18, 1]] (2, ''track-shower'') None []
       ([(''out'', [(''function'', TStr ''mse'')])], None) (2, ''avolkov'') 32
   = Inr (Compiled (Parallel (LoadedModel ''run/saved_models/model_epoch_1_file_1.h5'')
                     [''/gpu:0'', ''/gpu:1''])
            \<lparr>arg_loss = [(''out'', Plain (TStr ''mse''))], arg_optimizer = Adam,
             arg_metrics = [], arg_loss_weights = [(''out'', TNum 1)]\<rparr>)"
  by (simp add: build_or_load_nn_model_def get_optimizer_info_def
      parallelize_model_to_n_gpus_def str_int_def str_nat_1)

text \<open>
  Claim C6, as stated, fails: resuming from epoch \<open>(1, 1)\<close> on two GPUs, the model is
  loaded from \<open>run/saved_models/model_epoch_1_file_1.h5\<close>, and
  \<open>parallelize_model_to_n_gpus\<close>, which \<open>build_or_load_nn_model\<close> calls, compiles the
  parallelised model although \<open>epoch[0]\<close> is not 0.
\<close>

theorem build_or_load_compile_counterexample:
  "\<exists>model. build_or_load_nn_model [] (\<lambda>n. [''/gpu:0'', ''/gpu:1'']) (1, 1) ''run'' ''VGG''
       [[11, 13, 18, 1]] (2, ''track-shower'') None []
       ([(''out'', [(''function'', TStr ''mse'')])], None) (2, ''avolkov'') 32 = Inr model
     \<and> fst (1 :: int, 1 :: int) \<noteq> 0
     \<and> initial_model model = LoadedModel ''run/saved_models/model_epoch_1_file_1.h5''
     \<and> compile_calls model = 1"
  unfolding build_or_load_resume_two_gpus by simp

lemma build_nn_model_fresh:
  "build_nn_model nn_arch n_bins class_type swap_4d_channels str_ident = Inr m
     \<Longrightarrow> compile_calls m = 0 \<and> initial_model m = m"
  by (auto simp: build_nn_model_def err_bind_Inr split: if_splits)

lemma parallelize_compile_calls:
  "parallelize_model_to_n_gpus get_available_gpus m n_gpu batchsize lf optimizer ms lw
     = Inr (m', b')
   \<Longrightarrow> compile_calls m' = compile_calls m + (if fst n_gpu = 1 then 0 else 1)
     \<and> initial_model m' = initial_model m"
  by (auto simp: parallelize_model_to_n_gpus_def Let_def split: if_splits)

text \<open>
  Claim C6, amended. Whenever \<open>build_or_load_nn_model\<close> returns a model: the model was
  built by \<open>build_nn_model\<close> if \<open>epoch[0] = 0\<close>, and otherwise loaded from
  \<open>folder_name + '/saved_models/model_epoch_' + str(epoch[0]) + '_file_' + str(epoch[1])
  + '.h5'\<close>; \<open>build_or_load_nn_model\<close> itself compiles it exactly when \<open>epoch[0] = 0\<close>,
  and \<open>parallelize_model_to_n_gpus\<close> compiles the parallelised model once more when
  \<open>n_gpu[0]\<close> is not 1, for a built and for a loaded model alike. So a loaded model is
  not compiled again only if \<open>n_gpu[0] = 1\<close>.
\<close>

theorem build_or_load_nn_model_compile:
  assumes "build_or_load_nn_model custom_objects get_available_gpus epoch folder_name nn_arch
             n_bins class_type swap_4d_channels str_ident loss_opt n_gpu batchsize = Inr model"
  shows "(fst epoch = 0 \<longrightarrow>
            build_nn_model nn_arch n_bins class_type swap_4d_channels str_ident
              = Inr (initial_model model))
       \<and> (fst epoch \<noteq> 0 \<longrightarrow>
            initial_model model = LoadedModel (folder_name @ ''/saved_models/model_epoch_''
                @ str_int (fst epoch) @ ''_file_'' @ str_int (snd epoch) @ ''.h5''))
       \<and> compile_calls model
            = (if fst epoch = 0 then 1 else 0) + (if fst n_gpu = 1 then 0 else 1)"
proof -
  let ?path = "folder_name @ ''/saved_models/model_epoch_''
                @ str_int (fst epoch) @ ''_file_'' @ str_int (snd epoch) @ ''.h5''"
  from assms obtain m0 args m1 b1 where
    m0: "(if fst epoch = 0
          then build_nn_model nn_arch n_bins class_type swap_4d_channels str_ident
          else Inr (LoadedModel ?path)) = Inr m0"
    and par: "parallelize_model_to_n_gpus get_available_gpus m0 n_gpu batchsize
                (arg_loss args) (arg_optimizer args) (arg_metrics args) (arg_loss_weights args)
              = Inr (m1, b1)"
    and res: "model = (if fst epoch = 0 then Compiled m1 args else m1)"
    by (auto simp: build_or_load_nn_model_def err_bind_Inr Let_def split: if_splits)
  have fresh: "compile_calls m0 = 0 \<and> initial_model m0 = m0"
    using m0 build_nn_model_fresh by (auto split: if_splits)
  from parallelize_compile_calls [OF par] fresh
  have m1: "compile_calls m1 = (if fst n_gpu = 1 then 0 else 1)" "initial_model m1 = m0"
    by simp_all
  show ?thesis
    using m0 m1 res by (auto split: if_splits)
qed

theorem build_or_load_nn_model_compile_witness:
  "initial_model (Compiled (Parallel (LoadedModel ''run/saved_models/model_epoch_1_file_1.h5'')
                     [''/gpu:0'', ''/gpu:1''])
            \<lparr>arg_loss = [(''out'', Plain (TStr ''mse''))], arg_optimizer = Adam,
             arg_metrics = [], arg_loss_weights = [(''out'', TNum 1)]\<rparr>)
     = LoadedModel (''run'' @ ''/saved_models/model_epoch_'' @ str_int 1 @ ''_file_''
         @ str_int 1 @ ''.h5'')
   \<and> compile_calls (Compiled (Parallel (LoadedModel ''run/saved_models/model_epoch_1_file_1.h5'')
                     [''/gpu:0'', ''/gpu:1''])
            \<lparr>arg_loss = [(''out'', Plain (TStr ''mse''))], arg_optimizer = Adam,
             arg_metrics = [], arg_loss_weights = [(''out'', TNum 1)]\<rparr>) = 1"
  using build_or_load_nn_model_compile [OF build_or_load_resume_two_gpus]
  by simp

subsection \<open>Mean images\<close>

lemma mean_axis0_constant_rows:
  assumes "vs \<noteq> []"
  shows "np_mean_axis0 [w] (map (replicate w) vs)
           = MeanImage \<lparr>shape = [w], data = replicate w (sum_list vs / real (length vs))\<rparr>"
proof -
  have "map (\<lambda>c. sum_list (map (\<lambda>r. r ! c) (map (replicate w) vs)) / real (length vs)) [0..<w]
          = map (\<lambda>c. sum_list vs / real (length vs)) [0..<w]"
    by (rule map_cong) (simp_all add: comp_def cong: map_cong)
  also have "\<dots> = replicate w (sum_list vs / real (length vs))"
    by (simp add: map_replicate_const)
  finally show ?thesis using assms by (simp add: np_mean_axis0_def)
qed

lemma mean_image_in_two_steps:
  "mean_image_in_steps 2 xds
     = Inr (np_mean_images (ds_row_shape xds)
         [np_mean_axis0 (ds_row_shape xds) (take (length (ds_rows xds) div 2) (ds_rows xds)),
          np_mean_axis0 (ds_row_shape xds) (drop (length (ds_rows xds) div 2) (ds_rows xds))])"
proof -
  have up: "[0..<2] = [0, Suc 0]"
    by (simp add: numeral_2_eq_2)
  show ?thesis
    by (simp add: mean_image_in_steps_def Let_def up py_slice_def)
qed

lemma get_mean_image_two_steps:
  assumes f: "h5_files fs filepath = Some f"
    and x: "x_dataset f = \<lparr>ds_row_shape = [w], ds_rows = map (replicate w) [a, b, c]\<rparr>"
    and w: "8000000000 < 3 * w" "3 * w \<le> 16000000000"
  shows "get_mean_image fs filepath 1
           = Inr (MeanImage \<lparr>shape = [w], data = replicate w ((a + (b + c) / 2) / 2)\<rparr>)"
proof -
  have "\<lceil>real (3 * w * 8) / 8 / 8000000000\<rceil> = (2::int)"
    using w by (intro ceiling_unique) simp_all
  then have steps: "\<lceil>get_array_memsize (x_dataset f) / (real_of_int 1 * 8000000000)\<rceil> = 2"
    by (simp add: get_array_memsize_def x)
  have d: "(3::nat) div 2 = 1"
    by simp
  have "mean_image_in_steps 2 (x_dataset f)
          = Inr (np_mean_images [w]
              [np_mean_axis0 [w] (map (replicate w) [a]),
               np_mean_axis0 [w] (map (replicate w) [b, c])])"
    unfolding mean_image_in_two_steps x by (simp add: d)
  also have "\<dots> = Inr (MeanImage \<lparr>shape = [w], data = replicate w ((a + (b + c) / 2) / 2)\<rparr>)"
    using mean_axis0_constant_rows [of "[a]" w] mean_axis0_constant_rows [of "[b, c]" w]
      mean_axis0_constant_rows [of "[a, (b + c) / 2]" w]
    by (simp add: np_mean_images_def)
  finally have m: "mean_image_in_steps 2 (x_dataset f)
      = Inr (MeanImage \<lparr>shape = [w], data = replicate w ((a + (b + c) / 2) / 2)\<rparr>)" .
  have "get_mean_image fs filepath 1 = mean_image_in_steps (nat 2) (x_dataset f)"
    unfolding get_mean_image_def f option.case Let_def steps by simp
  then show ?thesis
    using m by simp
qed

text \<open>
  With two steps over three rows the chunks are row 0 and rows 1 to 2, and the mean of
  the two chunk means is not the mean of the rows.
\<close>

lemma mean_image_in_steps_unequal_chunks:
  "mean_image_in_steps 2 \<lparr>ds_row_shape = [1], ds_rows = [[3], [0], [0]]\<rparr>
     = Inr (MeanImage \<lparr>shape = [1], data = [3 / 2]\<rparr>)
   \<and> np_mean_axis0 [1] [[3], [0], [0]] = MeanImage \<lparr>shape = [1], data = [1]\<rparr>"
  by code_simp

text \<open>
  Claim C3 fails on the code. A dataset \<open>x\<close> of three rows of 3000000000 bins each,
  the first row all 3 and the others all 0, is larger than the 8000000000 bytes allowed
  for one GPU, so \<open>get_mean_image\<close> takes two steps: it returns 3/2 in every bin, while
  the mean over all rows of the dataset is 1 in every bin.
\<close>

theorem get_mean_image_unequal_chunks:
  "get_mean_image
     \<lparr>dir_entries = Map.empty, npz_files = Map.empty,
      h5_files = [''train.h5'' \<mapsto>
        \<lparr>x_dataset = \<lparr>ds_row_shape = [3000000000],
                       ds_rows = map (replicate 3000000000) [3, 0, 0]\<rparr>,
         y_dataset = \<lparr>ds_row_shape = [1], ds_rows = [[0], [0], [0]]\<rparr>\<rparr>]\<rparr>
     ''train.h5'' 1
   = Inr (MeanImage \<lparr>shape = [3000000000], data = replicate 3000000000 (3 / 2)\<rparr>)
   \<and> np_mean_axis0 [3000000000] (map (replicate 3000000000) [3, 0, 0])
       = MeanImage \<lparr>shape = [3000000000], data = replicate 3000000000 1\<rparr>"
proof -
  let ?x = "\<lparr>ds_row_shape = [3000000000], ds_rows = map (replicate 3000000000) [3, 0, 0 :: real]\<rparr>"
  let ?f = "\<lparr>x_dataset = ?x, y_dataset = \<lparr>ds_row_shape = [1], ds_rows = [[0], [0], [0]]\<rparr>\<rparr>"
  let ?fs = "\<lparr>dir_entries = Map.empty, npz_files = Map.empty, h5_files = [''train.h5'' \<mapsto> ?f]\<rparr>"
  have "h5_files ?fs ''train.h5'' = Some ?f" "x_dataset ?f = ?x"
    by simp_all
  from get_mean_image_two_steps [OF this]
  have "get_mean_image ?fs ''train.h5'' 1
    = Inr (MeanImage \<lparr>shape = [3000000000],
        data = replicate 3000000000 ((3 + (0 + 0) / 2) / 2)\<rparr>)"
    by simp
  moreover have "np_mean_axis0 [3000000000] (map (replicate 3000000000) [3, 0, 0])
       = MeanImage \<lparr>shape = [3000000000], data = replicate 3000000000 (sum_list [3, 0, 0] / real (length [3, 0, 0 :: real]))\<rparr>"
    by (rule mean_axis0_constant_rows) simp
  ultimately show ?thesis by simp
qed


text \<open>
  Where the number of steps divides the number of rows, all chunks have the same length
  and the result is the mean over all rows of the dataset.
\<close>

lemma sum_list_chunks:
  "length xs = k * s \<Longrightarrow>
     (\<Sum>i\<leftarrow>[0..<k]. sum_list (map g (take s (drop (i * s) xs)))) = sum_list (map g xs)"
  for g :: "'a \<Rightarrow> real"
proof (induction k arbitrary: xs)
  case 0
  then show ?case by simp
next
  case (Suc k)
  have "(\<Sum>i\<leftarrow>[0..<Suc k]. sum_list (map g (take s (drop (i * s) xs))))
          = sum_list (map g (take s xs))
            + (\<Sum>i\<leftarrow>[0..<k]. sum_list (map g (take s (drop (i * s) (drop s xs)))))"
    by (simp add: map_upt_Suc add.commute del: upt_Suc)
  also have "(\<Sum>i\<leftarrow>[0..<k]. sum_list (map g (take s (drop (i * s) (drop s xs)))))
          = sum_list (map g (drop s xs))"
    using Suc.prems by (intro Suc.IH) simp
  also have "sum_list (map g (take s xs)) + sum_list (map g (drop s xs))
          = sum_list (map g xs)"
    by (metis append_take_drop_id map_append sum_list_append)
  finally show ?case .
qed

lemma sum_list_divide:
  "(\<Sum>x\<leftarrow>xs. h x / c) = (\<Sum>x\<leftarrow>xs. h x) / c" for c :: real
  by (induction xs) (simp_all add: add_divide_distrib)

lemma mean_image_in_steps_divisible:
  assumes "0 < steps" and "0 < s" and n: "length (ds_rows xds) = steps * s"
  shows "mean_image_in_steps steps xds
           = Inr (np_mean_axis0 (ds_row_shape xds) (ds_rows xds))"
proof -
  let ?rows = "ds_rows xds" and ?sh = "ds_row_shape xds"
  let ?chunk = "\<lambda>i. take s (drop (i * s) ?rows)"
  let ?S = "\<lambda>i c. sum_list (map (\<lambda>r. r ! c) (?chunk i))"
  let ?img = "\<lambda>i. MeanImage \<lparr>shape = ?sh, data = map (\<lambda>c. ?S i c / real s) [0..<prod_list ?sh]\<rparr>"
  have stepsize: "length ?rows div steps = s"
    using assms by simp
  have chunk: "(if i = steps - 1 \<or> steps = 1
                then np_mean_axis0 ?sh (py_slice (i * s) (length ?rows) ?rows)
                else np_mean_axis0 ?sh (py_slice (i * s) ((i + 1) * s) ?rows)) = ?img i"
    if "i < steps" for i
  proof -
    from that have "Suc i \<le> steps" by simp
    then have "Suc i * s \<le> steps * s" by (rule mult_le_mono1)
    then have le: "i * s + s \<le> length ?rows" by (simp add: n)
    then have len: "length (?chunk i) = s" by simp
    then have ne: "?chunk i \<noteq> []" using assms(2) by auto
    have "(if i = steps - 1 \<or> steps = 1
           then np_mean_axis0 ?sh (py_slice (i * s) (length ?rows) ?rows)
           else np_mean_axis0 ?sh (py_slice (i * s) ((i + 1) * s) ?rows))
          = np_mean_axis0 ?sh (?chunk i)"
    proof (cases "i = steps - 1 \<or> steps = 1")
      case True
      with that have "steps = Suc i" by auto
      then have "length ?rows - i * s = s" by (simp add: n)
      then have "py_slice (i * s) (length ?rows) ?rows = ?chunk i"
        by (simp add: py_slice_def)
      with True show ?thesis by (simp only: if_True)
    next
      case False
      have "py_slice (i * s) ((i + 1) * s) ?rows = ?chunk i"
        by (simp add: py_slice_def)
      with False show ?thesis by (simp only: if_False)
    qed
    also have "\<dots> = ?img i"
      using ne len by (simp add: np_mean_axis0_def)
    finally show ?thesis .
  qed
  have arr: "map (\<lambda>i. if i = steps - 1 \<or> steps = 1
                then np_mean_axis0 ?sh (py_slice (i * s) (length ?rows) ?rows)
                else np_mean_axis0 ?sh (py_slice (i * s) ((i + 1) * s) ?rows)) [0..<steps]
             = map ?img [0..<steps]"
  proof (rule map_cong [OF refl])
    fix i assume "i \<in> set [0..<steps]"
    then have "i < steps" by simp
    then show "(if i = steps - 1 \<or> steps = 1
                then np_mean_axis0 ?sh (py_slice (i * s) (length ?rows) ?rows)
                else np_mean_axis0 ?sh (py_slice (i * s) ((i + 1) * s) ?rows)) = ?img i"
      by (rule chunk)
  qed
  have steps: "mean_image_in_steps steps xds = Inr (np_mean_images ?sh (map ?img [0..<steps]))"
    unfolding mean_image_in_steps_def Let_def stepsize arr using assms(1) by simp
  have nonan: "\<not> list_ex is_nan_image (map ?img [0..<steps])"
    by (simp add: list_ex_iff)
  have nonempty: "map image_data (map ?img [0..<steps]) \<noteq> []"
    using assms(1) by simp
  have rows_ne: "?rows \<noteq> []"
    using assms n by auto
  have entry: "sum_list (map (\<lambda>d. d ! c) (map image_data (map ?img [0..<steps])))
                 / real (length (map image_data (map ?img [0..<steps])))
               = sum_list (map (\<lambda>r. r ! c) ?rows) / real (length ?rows)"
    if "c < prod_list ?sh" for c
  proof -
    have "map (\<lambda>d. d ! c) (map image_data (map ?img [0..<steps]))
            = map (\<lambda>i. ?S i c / real s) [0..<steps]"
      using that by (simp add: comp_def)
    then have "sum_list (map (\<lambda>d. d ! c) (map image_data (map ?img [0..<steps])))
            = (\<Sum>i\<leftarrow>[0..<steps]. ?S i c) / real s"
      by (simp only: sum_list_divide)
    also have "(\<Sum>i\<leftarrow>[0..<steps]. ?S i c) = sum_list (map (\<lambda>r. r ! c) ?rows)"
      by (rule sum_list_chunks [OF n])
    finally show ?thesis
      by (simp add: n)
  qed
  have "np_mean_images ?sh (map ?img [0..<steps]) = np_mean_axis0 ?sh ?rows"
    unfolding np_mean_images_def np_mean_axis0_def
    using nonan nonempty rows_ne entry
    by (simp del: map_map)
  with steps show ?thesis by simp
qed

text \<open>
  Claim C8 fails on the code. For one model input, \<open>load_zero_center_data\<close> returns a
  list of two mean images when a matching precalculated file is found (the image is
  appended where it is loaded and again at the end of the loop body), and a list of one
  mean image when the mean is computed from the training file.
\<close>

theorem load_zero_center_data_appends_twice:
  "length (fst (cfg_train_files example_cfg ! 0)) = 1
   \<and> fst (load_zero_center_data example_cfg fs_with_precalculated)
       = Inr [MeanImage \<lparr>shape = [2], data = [1, 2]\<rparr>, MeanImage \<lparr>shape = [2], data = [1, 2]\<rparr>]
   \<and> fst (load_zero_center_data example_cfg fs_without_precalculated)
       = Inr [MeanImage \<lparr>shape = [2], data = [1, 2]\<rparr>]"
  by code_simp

text \<open>
  In general every model input adds one or two entries to the list: two for every input
  whose mean image is loaded from a precalculated file.
\<close>

lemma load_zero_center_inputs_length:
  "load_zero_center_inputs cfg inputs xs_mean fs = (Inr res, fs')
     \<Longrightarrow> length xs_mean + length inputs \<le> length res
       \<and> length res \<le> length xs_mean + 2 * length inputs"
proof (induction inputs arbitrary: xs_mean fs)
  case Nil
  then show ?case by simp
next
  case (Cons i inputs)
  obtain zero_center_files fs1 where
    l: "load_fpaths_of_existing_zero_center_files (cfg_zero_center_folder cfg) fs
          = (zero_center_files, fs1)"
    by (cases "load_fpaths_of_existing_zero_center_files (cfg_zero_center_folder cfg) fs")
  from Cons.prems obtain xs_mean' fs2 where
    rec: "load_zero_center_inputs cfg inputs xs_mean' fs2 = (Inr res, fs')"
    and len: "length xs_mean' = length xs_mean + 1 \<or> length xs_mean' = length xs_mean + 2"
    by (auto simp: l Let_def split: sum.splits option.splits prod.splits)
  from Cons.IH [OF rec] len show ?case
    by auto
qed

subsection \<open>The batch generator\<close>

lemma py_slice_nth: "py_slice lo hi xs = map ((!) xs) [lo..<min hi (length xs)]"
proof (rule nth_equalityI)
  show "length (py_slice lo hi xs) = length (map ((!) xs) [lo..<min hi (length xs)])"
    by (auto simp: py_slice_def)
next
  fix i assume "i < length (py_slice lo hi xs)"
  then have "i < hi - lo" "lo + i < length xs"
    by (auto simp: py_slice_def)
  then show "py_slice lo hi xs ! i = map ((!) xs) [lo..<min hi (length xs)] ! i"
    by (simp add: py_slice_def)
qed

lemma py_slice_rows: "hi \<le> length xs \<Longrightarrow> py_slice lo hi xs = map ((!) xs) [lo..<hi]"
  by (simp add: py_slice_nth min_def)

lemma err_map_Inr:
  "err_map g xs = Inr ys \<longleftrightarrow> length ys = length xs \<and> (\<forall>i<length xs. g (xs ! i) = Inr (ys ! i))"
proof (induction xs arbitrary: ys)
  case Nil
  then show ?case by auto
next
  case (Cons x xs)
  show ?case
  proof (cases ys)
    case Nil
    then show ?thesis by (auto simp: err_bind_Inr)
  next
    case (Cons y ys')
    then show ?thesis
      using Cons.IH [of ys'] by (auto simp: err_bind_Inr nth_Cons split: nat.splits)
  qed
qed


lemma read_xs_Inr:
  assumes "read_xs f dimensions batchsize n_entries = Inr xs" and "i < length f"
  shows "length xs = length f"
    and "xs ! i = \<lparr>shape = dimensions ! i,
                   data = map float32_round
                            (concat (py_slice n_entries (n_entries + batchsize)
                                       (ds_rows (x_dataset (f ! i)))))\<rparr>"
proof -
  let ?g = "\<lambda>i. err_bind (dict_getitem f i) (\<lambda>f_i.
        err_bind (dict_getitem dimensions i) (\<lambda>dimensions_i.
        err_bind
          (np_reshape
             (concat (py_slice n_entries (n_entries + batchsize) (ds_rows (x_dataset f_i))))
             dimensions_i)
          (\<lambda>xs_i. Inr (nd_astype_float32 xs_i))))"
  from assms(1) have m: "err_map ?g [0..<length f] = Inr xs"
    by (simp only: read_xs_def)
  from m [unfolded err_map_Inr] show "length xs = length f"
    by simp
  from m [unfolded err_map_Inr] assms(2) have "?g ([0..<length f] ! i) = Inr (xs ! i)"
    by simp
  with assms(2) have "?g i = Inr (xs ! i)"
    by simp
  then show "xs ! i = \<lparr>shape = dimensions ! i,
                   data = map float32_round
                            (concat (py_slice n_entries (n_entries + batchsize)
                                       (ds_rows (x_dataset (f ! i)))))\<rparr>"
    using assms(2)
    by (cases "i < length dimensions")
       (auto simp: dict_getitem_def np_reshape_def nd_astype_float32_def split: if_splits)
qed

lemma read_xs_slices:
  assumes "read_xs f dimensions batchsize n_entries = Inr xs"
  shows "xs = map (\<lambda>i. \<lparr>shape = dimensions ! i,
                        data = map float32_round
                                 (concat (py_slice n_entries (n_entries + batchsize)
                                            (ds_rows (x_dataset (f ! i)))))\<rparr>)
                [0..<length f]"
proof (rule nth_equalityI)
  show "length xs = length (map (\<lambda>i. \<lparr>shape = dimensions ! i,
                        data = map float32_round
                                 (concat (py_slice n_entries (n_entries + batchsize)
                                            (ds_rows (x_dataset (f ! i)))))\<rparr>)
                [0..<length f])"
  proof (cases f)
    case Nil
    with assms show ?thesis by (simp add: read_xs_def)
  next
    case (Cons h t)
    then have "0 < length f" by simp
    from read_xs_Inr(1) [OF assms this] show ?thesis by simp
  qed
next
  fix i assume i: "i < length xs"
  have "i < length f"
  proof (cases f)
    case Nil
    with assms i show ?thesis by (simp add: read_xs_def)
  next
    case (Cons h t)
    then have "0 < length f" by simp
    from read_xs_Inr(1) [OF assms this] i show ?thesis by simp
  qed
  from read_xs_Inr(2) [OF assms this] this
  show "xs ! i = map (\<lambda>i. \<lparr>shape = dimensions ! i,
                        data = map float32_round
                                 (concat (py_slice n_entries (n_entries + batchsize)
                                            (ds_rows (x_dataset (f ! i)))))\<rparr>)
                [0..<length f] ! i"
    by simp
qed


text \<open>Rows of one width, concatenated and cut into pieces of that width again.\<close>

lemma chunks_concat:
  assumes "\<forall>r \<in> set rs. length r = w"
  shows "map (\<lambda>j. take w (drop (j * w) (concat rs))) [0..<length rs] = rs"
  using assms
proof (induction rs)
  case Nil
  show ?case by simp
next
  case (Cons r rs)
  have upt: "[0..<length (r # rs)] = 0 # map Suc [0..<length rs]"
    by (simp add: upt_conv_Cons map_Suc_upt del: upt_Suc)
  have "map (\<lambda>j. take w (drop (j * w) (concat (r # rs)))) (map Suc [0..<length rs])
        = map (\<lambda>j. take w (drop (j * w) (concat rs))) [0..<length rs]"
    using Cons.prems by (simp add: o_def del: upt_Suc)
  also have "\<dots> = rs"
    using Cons by simp
  finally show ?case
    unfolding upt using Cons.prems by simp
qed

lemma read_y_values_Inr:
  assumes "read_y_values f batchsize n_entries = Inr y_values"
  shows "f \<noteq> []"
    and "\<exists>n_columns.
           py_getitem (ds_row_shape (y_dataset (f ! 0))) 0 = Inr n_columns
         \<and> length (concat (py_slice n_entries (n_entries + batchsize)
                              (ds_rows (y_dataset (f ! 0))))) = batchsize * n_columns
         \<and> y_values =
             \<lparr>n_cols = n_columns,
              rows2d = map (\<lambda>j. take n_columns (drop (j * n_columns)
                                  (concat (py_slice n_entries (n_entries + batchsize)
                                             (ds_rows (y_dataset (f ! 0)))))))
                           [0..<batchsize]\<rparr>"
proof -
  from assms show ne: "f \<noteq> []"
    by (cases f) (simp_all add: read_y_values_def dict_getitem_def)
  then have "dict_getitem f 0 = Inr (f ! 0)"
    by (simp add: dict_getitem_def)
  with assms obtain n_columns where
    "py_getitem (ds_row_shape (y_dataset (f ! 0))) 0 = Inr n_columns"
    and "(if length (concat (py_slice n_entries (n_entries + batchsize)
                               (ds_rows (y_dataset (f ! 0))))) = batchsize * n_columns
          then Inr \<lparr>n_cols = n_columns,
                    rows2d = map (\<lambda>j. take n_columns (drop (j * n_columns)
                                  (concat (py_slice n_entries (n_entries + batchsize)
                                             (ds_rows (y_dataset (f ! 0)))))))
                           [0..<batchsize]\<rparr>
          else Inl ValueError) = Inr y_values"
    unfolding read_y_values_def Let_def err_bind_Inr by auto
  then show "\<exists>n_columns.
           py_getitem (ds_row_shape (y_dataset (f ! 0))) 0 = Inr n_columns
         \<and> length (concat (py_slice n_entries (n_entries + batchsize)
                              (ds_rows (y_dataset (f ! 0))))) = batchsize * n_columns
         \<and> y_values =
             \<lparr>n_cols = n_columns,
              rows2d = map (\<lambda>j. take n_columns (drop (j * n_columns)
                                  (concat (py_slice n_entries (n_entries + batchsize)
                                             (ds_rows (y_dataset (f ! 0)))))))
                           [0..<batchsize]\<rparr>"
    by (auto split: if_splits)
qed

text \<open>
  Where the slice has all its rows, and the rows of the dataset have the width of its
  shape, the reshaped label values are the rows of the slice.
\<close>

lemma y_rows_of_slice:
  assumes "\<forall>r \<in> set rows. length r = n_columns" and "n_entries + batchsize \<le> length rows"
  shows "map (\<lambda>j. take n_columns (drop (j * n_columns)
                    (concat (py_slice n_entries (n_entries + batchsize) rows))))
             [0..<batchsize]
         = map ((!) rows) [n_entries..<n_entries + batchsize]"
proof -
  let ?rs = "map ((!) rows) [n_entries..<n_entries + batchsize]"
  have s: "py_slice n_entries (n_entries + batchsize) rows = ?rs"
    using assms(2) by (rule py_slice_rows)
  have "\<forall>r \<in> set ?rs. length r = n_columns"
    using assms by auto
  from chunks_concat [OF this] show ?thesis
    unfolding s by simp
qed

lemma encode_targets_track_shower_length:
  assumes "encode_targets coin y_val class_type = Inr train_y"
    and "snd class_type = ''track-shower''"
  shows "fst class_type = 2 \<and> length train_y = 2"
  using assms
  by (auto simp: encode_targets_def err_bind_Inr py_setitem_def Let_def split: if_splits)

lemma make_ys_Inr:
  assumes "make_ys coin y_values class_type = Inr ys"
  shows "if snd class_type \<noteq> ''track-shower''
         then \<exists>labels. get_regression_labels y_values class_type = Inr labels
                     \<and> ys = RegressionLabels labels
         else \<exists>rows. ys = CategoricalLabels \<lparr>n_cols = fst class_type, rows2d = rows\<rparr>
                   \<and> length rows = length (rows2d y_values)
                   \<and> (\<forall>c < length (rows2d y_values).
                         encode_targets coin (rows2d y_values ! c) class_type = Inr (rows ! c))"
proof (cases "snd class_type \<noteq> ''track-shower''")
  case True
  with assms show ?thesis
    by (auto simp: make_ys_def err_bind_Inr)
next
  case False
  then have ts: "snd class_type = ''track-shower''"
    by simp
  let ?g = "\<lambda>y_val.
              err_bind (encode_targets coin y_val class_type) (\<lambda>train_y.
                if length train_y = fst class_type then Inr train_y
                else if length train_y = 1 then Inr (replicate (fst class_type) (train_y ! 0))
                else Inl ValueError)"
  from assms ts obtain rows where
    m: "err_map ?g (rows2d y_values) = Inr rows"
    and ys: "ys = CategoricalLabels \<lparr>n_cols = fst class_type, rows2d = rows\<rparr>"
    by (auto simp: make_ys_def err_bind_Inr)
  from m [unfolded err_map_Inr] have len: "length rows = length (rows2d y_values)"
    and each: "\<And>c. c < length (rows2d y_values) \<Longrightarrow> ?g (rows2d y_values ! c) = Inr (rows ! c)"
    by simp_all
  have "encode_targets coin (rows2d y_values ! c) class_type = Inr (rows ! c)"
    if "c < length (rows2d y_values)" for c
  proof -
    from each [OF that] obtain train_y where
      e: "encode_targets coin (rows2d y_values ! c) class_type = Inr train_y"
      and r: "(if length train_y = fst class_type then Inr train_y
               else if length train_y = 1 then Inr (replicate (fst class_type) (train_y ! 0))
               else Inl ValueError) = Inr (rows ! c)"
      unfolding err_bind_Inr by auto
    from encode_targets_track_shower_length [OF e ts] r have "rows ! c = train_y"
      by simp
    with e show ?thesis by simp
  qed
  with ts ys len show ?thesis
    by auto
qed

text \<open>What a batch holds, read off the body of the loop.\<close>

lemma make_batch_Inr:
  assumes "make_batch f dimensions batchsize class_type str_ident zero_center_image
             yield_mc_info swap_col coin n_entries = Inr out"
  shows "\<exists>xs y_values.
           zero_center
             (map (\<lambda>i. \<lparr>shape = dimensions ! i,
                        data = map float32_round
                                 (concat (py_slice n_entries (n_entries + batchsize)
                                            (ds_rows (x_dataset (f ! i)))))\<rparr>)
                  [0..<length f])
             zero_center_image = Inr xs
         \<and> make_xs_list xs swap_col str_ident = Inr (batch_xs out)
         \<and> read_y_values f batchsize n_entries = Inr y_values
         \<and> make_ys coin y_values class_type = Inr (batch_ys out)
         \<and> batch_mc_info out = (if yield_mc_info then Some y_values else None)"
proof -
  from assms obtain xs0 xs xs_list y_values ys where
    rx: "read_xs f dimensions batchsize n_entries = Inr xs0"
    and zc: "zero_center xs0 zero_center_image = Inr xs"
    and xl: "make_xs_list xs swap_col str_ident = Inr xs_list"
    and ry: "read_y_values f batchsize n_entries = Inr y_values"
    and my: "make_ys coin y_values class_type = Inr ys"
    and out: "out = \<lparr>batch_xs = xs_list, batch_ys = ys,
                     batch_mc_info = (if yield_mc_info then Some y_values else None)\<rparr>"
    unfolding make_batch_def err_bind_Inr by blast
  have "batch_xs out = xs_list" "batch_ys out = ys"
    "batch_mc_info out = (if yield_mc_info then Some y_values else None)"
    by (simp_all add: out)
  with zc xl ry my show ?thesis
    unfolding read_xs_slices [OF rx] by blast
qed







text \<open>
  The inner loop runs \<open>j\<close> times from \<open>n_entries\<close> if the body raises nothing, and yields
  the batches of the body at \<open>n_entries\<close>, \<open>n_entries + batchsize\<close>, ...
\<close>

lemma inner_loop_iterations:
  assumes "1 \<le> batchsize"
    and "\<And>m. m < j \<Longrightarrow>
           make_batch f dimensions batchsize class_type str_ident zero_center_image
             yield_mc_info swap_col coin (n_entries + m * batchsize) = Inr (out m)"
    and "n_entries + j * batchsize \<le> f_size"
    and "f_size < n_entries + (j + 1) * batchsize"
  shows "inner_loop f dimensions batchsize class_type str_ident zero_center_image
           yield_mc_info swap_col coin f_size n_entries yielded
         = Some (yielded @ map out [0..<j], None)"
  using assms(2-)
proof (induction j arbitrary: n_entries yielded out)
  case 0
  then show ?case
    by (subst inner_loop.simps) simp
next
  case (Suc j)
  have first: "make_batch f dimensions batchsize class_type str_ident zero_center_image
                 yield_mc_info swap_col coin n_entries = Inr (out 0)"
    using Suc.prems(1) [of 0] by simp
  have rest: "inner_loop f dimensions batchsize class_type str_ident zero_center_image
                yield_mc_info swap_col coin f_size (n_entries + batchsize) (yielded @ [out 0])
              = Some ((yielded @ [out 0]) @ map (\<lambda>m. out (Suc m)) [0..<j], None)"
  proof (rule Suc.IH)
    fix m assume "m < j"
    then show "make_batch f dimensions batchsize class_type str_ident zero_center_image
                 yield_mc_info swap_col coin (n_entries + batchsize + m * batchsize)
               = Inr (out (Suc m))"
      using Suc.prems(1) [of "Suc m"] by (simp add: ac_simps)
  next
    show "n_entries + batchsize + j * batchsize \<le> f_size"
      using Suc.prems(2) by (simp add: ac_simps)
    show "f_size < n_entries + batchsize + (j + 1) * batchsize"
      using Suc.prems(3) by (simp add: ac_simps)
  qed
  have guard: "int n_entries \<le> int f_size - int batchsize"
    using Suc.prems(2) by simp
  show ?case
    by (subst inner_loop.simps) (simp add: guard first rest map_upt_Suc del: upt_Suc)
qed

text \<open>
  With \<open>batchsize >= 1\<close> a pass always ends, at the loop test or with the first
  exception of the body; up to there it has yielded the batches of the body at
  \<open>n_entries\<close>, \<open>n_entries + batchsize\<close>, ...
\<close>

lemma inner_loop_ends:
  assumes "1 \<le> batchsize"
  shows "\<exists>batches status.
           inner_loop f dimensions batchsize class_type str_ident zero_center_image
             yield_mc_info swap_col coin f_size n_entries yielded
           = Some (yielded @ batches, status)
         \<and> (\<forall>k < length batches.
               make_batch f dimensions batchsize class_type str_ident zero_center_image
                 yield_mc_info swap_col coin (n_entries + k * batchsize) = Inr (batches ! k))
         \<and> (case status of
               None \<Rightarrow> f_size < n_entries + (length batches + 1) * batchsize
             | Some e \<Rightarrow>
                 make_batch f dimensions batchsize class_type str_ident zero_center_image
                   yield_mc_info swap_col coin (n_entries + length batches * batchsize) = Inl e
                 \<and> n_entries + (length batches + 1) * batchsize \<le> f_size)"
proof (induction "Suc f_size - n_entries" arbitrary: n_entries yielded rule: less_induct)
  case less
  let ?body = "make_batch f dimensions batchsize class_type str_ident zero_center_image
                 yield_mc_info swap_col coin"
  let ?loop = "inner_loop f dimensions batchsize class_type str_ident zero_center_image
                 yield_mc_info swap_col coin f_size"
  show ?case
  proof (cases "int n_entries \<le> int f_size - int batchsize")
    case False
    then have "?loop n_entries yielded = Some (yielded @ [], None)"
      by (subst inner_loop.simps) simp
    moreover from False have "f_size < n_entries + (length ([] :: batch list) + 1) * batchsize"
      by simp
    ultimately show ?thesis
      by (intro exI [of _ "[]"] exI [of _ None]) simp
  next
    case guard: True
    show ?thesis
    proof (cases "?body n_entries")
      case (Inl e)
      with guard have "?loop n_entries yielded = Some (yielded @ [], Some e)"
        by (subst inner_loop.simps) simp
      moreover from guard have "n_entries + (length ([] :: batch list) + 1) * batchsize \<le> f_size"
        by simp
      ultimately show ?thesis
        using Inl by (intro exI [of _ "[]"] exI [of _ "Some e"]) simp
    next
      case (Inr out)
      from guard assms have "Suc f_size - (n_entries + batchsize) < Suc f_size - n_entries"
        by simp
      from less [OF this, of "yielded @ [out]"] obtain batches status where
        run: "?loop (n_entries + batchsize) (yielded @ [out])
                = Some ((yielded @ [out]) @ batches, status)"
        and bs: "\<And>k. k < length batches \<Longrightarrow>
                   ?body (n_entries + batchsize + k * batchsize) = Inr (batches ! k)"
        and st: "case status of
                   None \<Rightarrow> f_size < n_entries + batchsize + (length batches + 1) * batchsize
                 | Some e \<Rightarrow>
                     ?body (n_entries + batchsize + length batches * batchsize) = Inl e
                     \<and> n_entries + batchsize + (length batches + 1) * batchsize \<le> f_size"
        by blast
      have "?loop n_entries yielded = Some (yielded @ (out # batches), status)"
        using guard Inr run by (subst inner_loop.simps) simp
      moreover have "?body (n_entries + k * batchsize) = Inr ((out # batches) ! k)"
        if "k < length (out # batches)" for k
      proof (cases k)
        case 0
        with Inr show ?thesis by simp
      next
        case (Suc k')
        with that bs [of k'] show ?thesis by (simp add: ac_simps)
      qed
      moreover have "case status of
               None \<Rightarrow> f_size < n_entries + (length (out # batches) + 1) * batchsize
             | Some e \<Rightarrow>
                 ?body (n_entries + length (out # batches) * batchsize) = Inl e
                 \<and> n_entries + (length (out # batches) + 1) * batchsize \<le> f_size"
        using st by (cases status) (simp_all add: ac_simps)
      ultimately show ?thesis
        by blast
    qed
  qed
qed

text \<open>
  The batch of the body at \<open>n_entries = k * batchsize\<close>, for files that have the rows
  up to \<open>f_size\<close> and a two-dimensional \<open>y\<close> in the first file.
\<close>

lemma make_batch_rows:
  assumes yielded:
      "make_batch f dimensions batchsize class_type str_ident zero_center_image
         yield_mc_info swap_col coin (k * batchsize) = Inr out"
    and bound: "(k + 1) * batchsize \<le> f_size"
    and x_rows: "\<forall>i < length f. f_size \<le> length (ds_rows (x_dataset (f ! i)))"
    and y_rows: "f_size \<le> length (ds_rows (y_dataset (f ! 0)))"
    and y_shape: "ds_row_shape (y_dataset (f ! 0)) = [n_columns]"
    and y_width: "\<forall>r \<in> set (ds_rows (y_dataset (f ! 0))). length r = n_columns"
  shows "(let x_k = map (\<lambda>i. \<lparr>shape = dimensions ! i,
                                     data = map float32_round
                                              (concat (map ((!) (ds_rows (x_dataset (f ! i))))
                                                         [k * batchsize..<(k + 1) * batchsize]))\<rparr>)
                               [0..<length f];
                    y_k = \<lparr>n_cols = n_columns,
                           rows2d = map ((!) (ds_rows (y_dataset (f ! 0))))
                                        [k * batchsize..<(k + 1) * batchsize]\<rparr>
                in (\<exists>xs. zero_center x_k zero_center_image = Inr xs
                        \<and> make_xs_list xs swap_col str_ident = Inr (batch_xs out))
                 \<and> (zero_center_image = None \<and> swap_col = None \<longrightarrow> batch_xs out = XsList x_k)
                 \<and> (if snd class_type \<noteq> ''track-shower''
                    then \<exists>labels. get_regression_labels y_k class_type = Inr labels
                                \<and> batch_ys out = RegressionLabels labels
                    else \<exists>rows. batch_ys out
                                  = CategoricalLabels \<lparr>n_cols = fst class_type, rows2d = rows\<rparr>
                              \<and> length rows = batchsize
                              \<and> (\<forall>c < batchsize.
                                    encode_targets coin
                                      (ds_rows (y_dataset (f ! 0)) ! (k * batchsize + c)) class_type
                                    = Inr (rows ! c)))
                 \<and> batch_mc_info out = (if yield_mc_info then Some y_k else None))"
proof -
  let ?n = "k * batchsize"
  let ?rows = "ds_rows (y_dataset (f ! 0))"
  let ?x = "map (\<lambda>i. \<lparr>shape = dimensions ! i,
                       data = map float32_round
                                (concat (map ((!) (ds_rows (x_dataset (f ! i))))
                                           [k * batchsize..<(k + 1) * batchsize]))\<rparr>)
                 [0..<length f]"
  let ?y = "\<lparr>n_cols = n_columns,
             rows2d = map ((!) ?rows) [k * batchsize..<(k + 1) * batchsize]\<rparr>"
  have hi: "?n + batchsize = (k + 1) * batchsize"
    by simp
  from make_batch_Inr [OF yielded] obtain xs y_values where
    zc: "zero_center
           (map (\<lambda>i. \<lparr>shape = dimensions ! i,
                      data = map float32_round
                               (concat (py_slice ?n (?n + batchsize)
                                          (ds_rows (x_dataset (f ! i)))))\<rparr>)
                [0..<length f])
           zero_center_image = Inr xs"
    and xl: "make_xs_list xs swap_col str_ident = Inr (batch_xs out)"
    and ry: "read_y_values f batchsize ?n = Inr y_values"
    and my: "make_ys coin y_values class_type = Inr (batch_ys out)"
    and mc: "batch_mc_info out = (if yield_mc_info then Some y_values else None)"
    by blast
  have slice_x: "py_slice ?n (?n + batchsize) (ds_rows (x_dataset (f ! i)))
                 = map ((!) (ds_rows (x_dataset (f ! i)))) [?n..<(k + 1) * batchsize]"
    if "i < length f" for i
  proof -
    from that x_rows bound have "?n + batchsize \<le> length (ds_rows (x_dataset (f ! i)))"
      unfolding hi by (meson le_trans)
    from py_slice_rows [OF this] show ?thesis
      unfolding hi .
  qed
  have x: "map (\<lambda>i. \<lparr>shape = dimensions ! i,
                      data = map float32_round
                               (concat (py_slice ?n (?n + batchsize)
                                          (ds_rows (x_dataset (f ! i)))))\<rparr>)
                [0..<length f] = ?x"
    by (rule map_cong [OF refl]) (simp add: slice_x)
  from zc have zc': "zero_center ?x zero_center_image = Inr xs"
    unfolding x .
  from read_y_values_Inr(2) [OF ry] obtain w where
    nc: "py_getitem (ds_row_shape (y_dataset (f ! 0))) 0 = Inr w"
    and y: "y_values =
             \<lparr>n_cols = w,
              rows2d = map (\<lambda>j. take w (drop (j * w)
                                  (concat (py_slice ?n (?n + batchsize) ?rows))))
                           [0..<batchsize]\<rparr>"
    by blast
  from nc y_shape have w: "w = n_columns"
    by (simp add: py_getitem_def)
  have "?n + batchsize \<le> length ?rows"
    using bound y_rows unfolding hi by (rule le_trans)
  from y_rows_of_slice [OF y_width this] have yv: "y_values = ?y"
    unfolding y w hi by simp
  have row: "rows2d ?y ! c = ?rows ! (k * batchsize + c)" if "c < batchsize" for c
    using that by simp
  have len: "length (rows2d ?y) = batchsize"
    by simp
  have labels: "if snd class_type \<noteq> ''track-shower''
                then \<exists>labels. get_regression_labels ?y class_type = Inr labels
                            \<and> batch_ys out = RegressionLabels labels
                else \<exists>rows. batch_ys out
                              = CategoricalLabels \<lparr>n_cols = fst class_type, rows2d = rows\<rparr>
                          \<and> length rows = batchsize
                          \<and> (\<forall>c < batchsize.
                                encode_targets coin (?rows ! (k * batchsize + c)) class_type
                                = Inr (rows ! c))"
  proof (cases "snd class_type \<noteq> ''track-shower''")
    case True
    with make_ys_Inr [OF my] show ?thesis
      unfolding yv by simp
  next
    case False
    with make_ys_Inr [OF my] obtain rows where
      r: "batch_ys out = CategoricalLabels \<lparr>n_cols = fst class_type, rows2d = rows\<rparr>"
      and l: "length rows = length (rows2d ?y)"
      and e: "\<And>c. c < length (rows2d ?y) \<Longrightarrow>
                encode_targets coin (rows2d ?y ! c) class_type = Inr (rows ! c)"
      unfolding yv by auto
    have "encode_targets coin (?rows ! (k * batchsize + c)) class_type = Inr (rows ! c)"
      if "c < batchsize" for c
      using e [of c] that row [OF that] by (simp only: len)
    with False r l show ?thesis
      unfolding len by auto
  qed
  have plain: "batch_xs out = XsList ?x" if "zero_center_image = None" "swap_col = None"
    using zc' xl that by (simp add: zero_center_def make_xs_list_def)
  from mc have mc': "batch_mc_info out = (if yield_mc_info then Some ?y else None)"
    unfolding yv .
  show ?thesis
    unfolding Let_def using zc' xl plain labels mc' by blast
qed

lemma example_body:
  "make_batch [example_events] [[2, 1, 2, 1]] 2 (2, ''track-shower'') [] None True None False 0
     = Inr \<lparr>batch_xs = XsList [\<lparr>shape = [2, 1, 2, 1], data = [0, 1, 2, 3]\<rparr>],
            batch_ys = CategoricalLabels \<lparr>n_cols = 2, rows2d = [[1, 0], [0, 1]]\<rparr>,
            batch_mc_info = Some \<lparr>n_cols = 8,
              rows2d = [[0, 12, 10, 0, 1 / 2, 0, 0, 1], [1, - 14, 20, 1, 1 / 4, 1, 0, 0]]\<rparr>\<rparr>"
  "make_batch [example_events] [[2, 1, 2, 1]] 2 (2, ''track-shower'') [] None True None False 2
     = Inr \<lparr>batch_xs = XsList [\<lparr>shape = [2, 1, 2, 1], data = [4, 5, 6, 7]\<rparr>],
            batch_ys = CategoricalLabels \<lparr>n_cols = 2, rows2d = [[1, 0], [1, 0]]\<rparr>,
            batch_mc_info = Some \<lparr>n_cols = 8,
              rows2d = [[2, 16, 30, 1, 1 / 2, 0, 1, 0], [3, 12, 40, 1, 1 / 4, 0, 0, - 1]]\<rparr>\<rparr>"
  "make_batch [example_events] [[2, 1, 2, 1]] 2 (2, ''track-shower'') [] None True None False 4
     = Inl ValueError"
  "make_batch [] [] 1 (2, ''track-shower'') [] None True None False 0 = Inl KeyError"
  by code_simp+

lemma inner_loop_short_file:
  "inner_loop [example_events] [[2, 1, 2, 1]] 2 (2, ''track-shower'') [] None True None False
     7 0 []
   = Some ([\<lparr>batch_xs = XsList [\<lparr>shape = [2, 1, 2, 1], data = [0, 1, 2, 3]\<rparr>],
             batch_ys = CategoricalLabels \<lparr>n_cols = 2, rows2d = [[1, 0], [0, 1]]\<rparr>,
             batch_mc_info = Some \<lparr>n_cols = 8,
               rows2d = [[0, 12, 10, 0, 1 / 2, 0, 0, 1], [1, - 14, 20, 1, 1 / 4, 1, 0, 0]]\<rparr>\<rparr>,
            \<lparr>batch_xs = XsList [\<lparr>shape = [2, 1, 2, 1], data = [4, 5, 6, 7]\<rparr>],
             batch_ys = CategoricalLabels \<lparr>n_cols = 2, rows2d = [[1, 0], [1, 0]]\<rparr>,
             batch_mc_info = Some \<lparr>n_cols = 8,
               rows2d = [[2, 16, 30, 1, 1 / 2, 0, 1, 0], [3, 12, 40, 1, 1 / 4, 0, 0, - 1]]\<rparr>\<rparr>],
           Some ValueError)"
  by code_simp

lemma inner_loop_no_file:
  "inner_loop [] [] 1 (2, ''track-shower'') [] None True None False 1 0 []
   = Some ([], Some KeyError)"
  by code_simp

text \<open>
  Claim C1, as stated, fails: the loop body can raise, and then the pass ends early. For
  a file of five events, \<open>batchsize = 2\<close> and \<open>f_size = 7\<close>, the pass yields two batches and
  raises ValueError where it reshapes the third slice (one row instead of two), while
  \<open>7 div 2 = 3\<close>. For an empty list of files, \<open>batchsize = 1\<close> and \<open>f_size = 1\<close>, it yields
  no batch and raises KeyError at \<open>f[0]\<close>, while \<open>1 div 1 = 1\<close>.
\<close>

theorem inner_loop_batches_counterexample:
  "(\<exists>batches.
      inner_loop [example_events] [[2, 1, 2, 1]] 2 (2, ''track-shower'') [] None True None False
        7 0 [] = Some (batches, Some ValueError)
    \<and> length batches = 2 \<and> (7 :: nat) div 2 = 3 \<and> (1 :: nat) \<le> 2 \<and> (2 :: nat) \<le> 7)
   \<and> inner_loop [] [] 1 (2, ''track-shower'') [] None True None False 1 0 []
       = Some ([], Some KeyError)
   \<and> (1 :: nat) div 1 = 1"
  unfolding inner_loop_short_file inner_loop_no_file by simp

text \<open>
  Claim C1, amended. Let \<open>batchsize >= 1\<close> and \<open>f_size >= batchsize\<close>, let the loop body
  raise no exception where the pass runs it (at \<open>n_entries = k * batchsize\<close> for
  \<open>k < f_size div batchsize\<close>), let every file have at least \<open>f_size\<close> rows of images
  (with entries in the finite range of float32), and let the \<open>y\<close> of the first file
  have at least \<open>f_size\<close> rows of \<open>n_columns\<close> entries. Then one pass of the inner loop
  ends at the loop test after it has yielded exactly \<open>f_size div batchsize\<close> batches,
  and the \<open>k\<close>-th batch is made of the rows \<open>k * batchsize\<close> to \<open>(k + 1) * batchsize - 1\<close>,
  where \<open>(k + 1) * batchsize <= f_size\<close>: its arrays are made (by zero-centering and the
  branch of \<open>swap_col\<close>) of \<open>x_k\<close>, one array per file that holds these rows of the file's
  \<open>x\<close> as float32, and are \<open>x_k\<close> itself if there is no mean image and no \<open>swap_col\<close>; its
  labels are made of \<open>y_k\<close>, these rows of the \<open>y\<close> of the first file (for
  \<open>'track-shower'\<close>, row \<open>c\<close> is the vector \<open>encode_targets\<close> returns for event
  \<open>k * batchsize + c\<close>); and its mc info, if yielded, is \<open>y_k\<close>.
\<close>

theorem inner_loop_batches:
  assumes "1 \<le> batchsize" and "batchsize \<le> f_size"
    and no_exception:
      "\<forall>k < f_size div batchsize.
         \<exists>out. make_batch f dimensions batchsize class_type str_ident zero_center_image
                 yield_mc_info swap_col coin (k * batchsize) = Inr out"
    and x_rows: "\<forall>i < length f. f_size \<le> length (ds_rows (x_dataset (f ! i)))"
    and y_rows: "f_size \<le> length (ds_rows (y_dataset (f ! 0)))"
    and y_shape: "ds_row_shape (y_dataset (f ! 0)) = [n_columns]"
    and y_width: "\<forall>r \<in> set (ds_rows (y_dataset (f ! 0))). length r = n_columns"
    and finite:
      "\<forall>i < length f. \<forall>r \<in> set (ds_rows (x_dataset (f ! i))). \<forall>v \<in> set r. float32_finite v"
  shows "\<exists>batches.
           inner_loop f dimensions batchsize class_type str_ident zero_center_image
             yield_mc_info swap_col coin f_size 0 [] = Some (batches, None)
         \<and> length batches = f_size div batchsize
         \<and> (\<forall>k < length batches.
               (k + 1) * batchsize \<le> f_size
             \<and> (let x_k = map (\<lambda>i. \<lparr>shape = dimensions ! i,
                                     data = map float32_round
                                              (concat (map ((!) (ds_rows (x_dataset (f ! i))))
                                                         [k * batchsize..<(k + 1) * batchsize]))\<rparr>)
                               [0..<length f];
                    y_k = \<lparr>n_cols = n_columns,
                           rows2d = map ((!) (ds_rows (y_dataset (f ! 0))))
                                        [k * batchsize..<(k + 1) * batchsize]\<rparr>
                in (\<exists>xs. zero_center x_k zero_center_image = Inr xs
                        \<and> make_xs_list xs swap_col str_ident = Inr (batch_xs (batches ! k)))
                 \<and> (zero_center_image = None \<and> swap_col = None \<longrightarrow> batch_xs (batches ! k) = XsList x_k)
                 \<and> (if snd class_type \<noteq> ''track-shower''
                    then \<exists>labels. get_regression_labels y_k class_type = Inr labels
                                \<and> batch_ys (batches ! k) = RegressionLabels labels
                    else \<exists>rows. batch_ys (batches ! k)
                                  = CategoricalLabels \<lparr>n_cols = fst class_type, rows2d = rows\<rparr>
                              \<and> length rows = batchsize
                              \<and> (\<forall>c < batchsize.
                                    encode_targets coin
                                      (ds_rows (y_dataset (f ! 0)) ! (k * batchsize + c)) class_type
                                    = Inr (rows ! c)))
                 \<and> batch_mc_info (batches ! k) = (if yield_mc_info then Some y_k else None)))"
proof -
  let ?j = "f_size div batchsize"
  let ?body = "make_batch f dimensions batchsize class_type str_ident zero_center_image
                 yield_mc_info swap_col coin"
  define out where "out m = projr (?body (m * batchsize))" for m
  have body: "?body (0 + m * batchsize) = Inr (out m)" if "m < ?j" for m
    using no_exception that by (auto simp: out_def)
  have le: "0 + ?j * batchsize \<le> f_size"
    by simp
  have gt: "f_size < 0 + (?j + 1) * batchsize"
    using assms(1) dividend_less_div_times [of batchsize f_size] by (simp add: ac_simps)
  have run: "inner_loop f dimensions batchsize class_type str_ident zero_center_image
               yield_mc_info swap_col coin f_size 0 [] = Some (map out [0..<?j], None)"
    using inner_loop_iterations [OF assms(1) body le gt, of "[]"] by simp
  have len: "length (map out [0..<?j]) = ?j"
    by simp
  have bound: "(k + 1) * batchsize \<le> f_size" if "k < ?j" for k
  proof -
    from that have "k + 1 \<le> ?j" by simp
    then have "(k + 1) * batchsize \<le> ?j * batchsize"
      by (rule mult_le_mono1)
    also have "\<dots> \<le> f_size"
      by simp
    finally show ?thesis .
  qed
  have each: "(k + 1) * batchsize \<le> f_size
             \<and> (let x_k = map (\<lambda>i. \<lparr>shape = dimensions ! i,
                                     data = map float32_round
                                              (concat (map ((!) (ds_rows (x_dataset (f ! i))))
                                                         [k * batchsize..<(k + 1) * batchsize]))\<rparr>)
                               [0..<length f];
                    y_k = \<lparr>n_cols = n_columns,
                           rows2d = map ((!) (ds_rows (y_dataset (f ! 0))))
                                        [k * batchsize..<(k + 1) * batchsize]\<rparr>
                in (\<exists>xs. zero_center x_k zero_center_image = Inr xs
                        \<and> make_xs_list xs swap_col str_ident = Inr (batch_xs (map out [0..<?j] ! k)))
                 \<and> (zero_center_image = None \<and> swap_col = None \<longrightarrow> batch_xs (map out [0..<?j] ! k) = XsList x_k)
                 \<and> (if snd class_type \<noteq> ''track-shower''
                    then \<exists>labels. get_regression_labels y_k class_type = Inr labels
                                \<and> batch_ys (map out [0..<?j] ! k) = RegressionLabels labels
                    else \<exists>rows. batch_ys (map out [0..<?j] ! k)
                                  = CategoricalLabels \<lparr>n_cols = fst class_type, rows2d = rows\<rparr>
                              \<and> length rows = batchsize
                              \<and> (\<forall>c < batchsize.
                                    encode_targets coin
                                      (ds_rows (y_dataset (f ! 0)) ! (k * batchsize + c)) class_type
                                    = Inr (rows ! c)))
                 \<and> batch_mc_info (map out [0..<?j] ! k) = (if yield_mc_info then Some y_k else None))"
    if "k < length (map out [0..<?j])" for k
  proof -
    from that have k: "k < ?j"
      by simp
    then have nth: "map out [0..<?j] ! k = out k"
      by simp
    from body [OF k] have yielded: "?body (k * batchsize) = Inr (out k)"
      by simp
    from make_batch_rows [OF yielded bound [OF k] x_rows y_rows y_shape y_width] bound [OF k]
    show ?thesis
      unfolding nth by (rule conjI [rotated])
  qed
  show ?thesis
    apply (rule exI [of _ "map out [0..<?j]"])
    apply (rule conjI [OF run])
    apply (rule conjI [OF len])
    apply (intro allI impI)
    apply (erule each)
    done
qed

theorem inner_loop_batches_witness:
  "\<exists>batches.
     inner_loop [example_events] [[2, 1, 2, 1]] 2 (2, ''track-shower'') [] None True None False
       5 0 [] = Some (batches, None)
   \<and> length batches = 2
   \<and> batch_xs (batches ! 1) = XsList [\<lparr>shape = [2, 1, 2, 1], data = [4, 5, 6, 7]\<rparr>]
   \<and> batch_mc_info (batches ! 1)
     = Some \<lparr>n_cols = 8,
             rows2d = [[2, 16, 30, 1, 1 / 2, 0, 1, 0], [3, 12, 40, 1, 1 / 4, 0, 0, - 1]]\<rparr>"
proof -
  let ?f = "[example_events]"
  let ?d = "[[2, 1, 2, 1 :: nat]]"
  let ?ct = "(2 :: nat, ''track-shower'')"
  let ?body = "make_batch ?f ?d 2 ?ct [] None True None False"
  have d: "(5::nat) div 2 = 2"
    by simp
  have "\<exists>out. ?body (k * 2) = Inr out" if "k < 2" for k
  proof -
    from that consider "k = 0" | "k = 1" by arith
    then show ?thesis
    proof cases
      case 1
      have "?body (0 * 2) = ?body 0" by simp
      with 1 example_body(1) show ?thesis by (simp only:) blast
    next
      case 2
      have "?body (1 * 2) = ?body 2" by simp
      with 2 example_body(2) show ?thesis by (simp only:) blast
    qed
  qed
  then have no_exception: "\<forall>k < (5::nat) div 2. \<exists>out. ?body (k * 2) = Inr out"
    unfolding d by blast
  have b: "(1::nat) \<le> 2" "(2::nat) \<le> 5"
    by simp_all
  have x_rows: "\<forall>i < length ?f. 5 \<le> length (ds_rows (x_dataset (?f ! i)))"
    by (simp add: example_events_def)
  have y_rows: "5 \<le> length (ds_rows (y_dataset (?f ! 0)))"
    by (simp add: example_events_def)
  have y_shape: "ds_row_shape (y_dataset (?f ! 0)) = [8]"
    by (simp add: example_events_def)
  have y_width: "\<forall>r \<in> set (ds_rows (y_dataset (?f ! 0))). length r = 8"
    by (simp add: example_events_def)
  have finite: "\<forall>i < length ?f. \<forall>r \<in> set (ds_rows (x_dataset (?f ! i))).
                  \<forall>v \<in> set r. float32_finite v"
    by code_simp
  from inner_loop_batches [OF b no_exception x_rows y_rows y_shape y_width finite]
  obtain batches where
    batches: "inner_loop ?f ?d 2 ?ct [] None True None False 5 0 [] = Some (batches, None)
      \<and> length batches = 5 div 2
      \<and> (\<forall>k < length batches.
               (k + 1) * 2 \<le> (5 :: nat)
             \<and> (let x_k = map (\<lambda>i. \<lparr>shape = ?d ! i,
                                     data = map float32_round
                                              (concat (map ((!) (ds_rows (x_dataset (?f ! i))))
                                                         [k * 2..<(k + 1) * 2]))\<rparr>)
                               [0..<length ?f];
                    y_k = \<lparr>n_cols = 8,
                           rows2d = map ((!) (ds_rows (y_dataset (?f ! 0))))
                                        [k * 2..<(k + 1) * 2]\<rparr>
                in (\<exists>xs. zero_center x_k None = Inr xs
                        \<and> make_xs_list xs None [] = Inr (batch_xs (batches ! k)))
                 \<and> ((None :: ndarray list option) = None \<and> (None :: string option) = None \<longrightarrow> batch_xs (batches ! k) = XsList x_k)
                 \<and> (if snd ?ct \<noteq> ''track-shower''
                    then \<exists>labels. get_regression_labels y_k ?ct = Inr labels
                                \<and> batch_ys (batches ! k) = RegressionLabels labels
                    else \<exists>rows. batch_ys (batches ! k)
                                  = CategoricalLabels \<lparr>n_cols = fst ?ct, rows2d = rows\<rparr>
                              \<and> length rows = 2
                              \<and> (\<forall>c < 2.
                                    encode_targets False
                                      (ds_rows (y_dataset (?f ! 0)) ! (k * 2 + c)) ?ct
                                    = Inr (rows ! c)))
                 \<and> batch_mc_info (batches ! k) = (if True then Some y_k else None)))" ..
  from batches have run: "inner_loop ?f ?d 2 ?ct [] None True None False 5 0 [] = Some (batches, None)"
    by (rule conjunct1)
  from batches have len: "length batches = 5 div 2"
    by (rule conjunct2 [THEN conjunct1])
  from batches have all: "\<forall>k < length batches.
               (k + 1) * 2 \<le> (5 :: nat)
             \<and> (let x_k = map (\<lambda>i. \<lparr>shape = ?d ! i,
                                     data = map float32_round
                                              (concat (map ((!) (ds_rows (x_dataset (?f ! i))))
                                                         [k * 2..<(k + 1) * 2]))\<rparr>)
                               [0..<length ?f];
                    y_k = \<lparr>n_cols = 8,
                           rows2d = map ((!) (ds_rows (y_dataset (?f ! 0))))
                                        [k * 2..<(k + 1) * 2]\<rparr>
                in (\<exists>xs. zero_center x_k None = Inr xs
                        \<and> make_xs_list xs None [] = Inr (batch_xs (batches ! k)))
                 \<and> ((None :: ndarray list option) = None \<and> (None :: string option) = None \<longrightarrow> batch_xs (batches ! k) = XsList x_k)
                 \<and> (if snd ?ct \<noteq> ''track-shower''
                    then \<exists>labels. get_regression_labels y_k ?ct = Inr labels
                                \<and> batch_ys (batches ! k) = RegressionLabels labels
                    else \<exists>rows. batch_ys (batches ! k)
                                  = CategoricalLabels \<lparr>n_cols = fst ?ct, rows2d = rows\<rparr>
                              \<and> length rows = 2
                              \<and> (\<forall>c < 2.
                                    encode_targets False
                                      (ds_rows (y_dataset (?f ! 0)) ! (k * 2 + c)) ?ct
                                    = Inr (rows ! c)))
                 \<and> batch_mc_info (batches ! k) = (if True then Some y_k else None))"
    by (rule conjunct2 [THEN conjunct2])
  from len have len2: "length batches = 2"
    by (simp only: d)
  then have "1 < length batches"
    by simp
  note at_1 = all [THEN spec, THEN mp, OF this, unfolded Let_def]
  have xs: "batch_xs (batches ! 1)
        = XsList (map (\<lambda>i. \<lparr>shape = ?d ! i,
                             data = map float32_round
                                      (concat (map ((!) (ds_rows (x_dataset (?f ! i))))
                                                 [1 * 2..<(1 + 1) * 2]))\<rparr>)
                       [0..<length ?f])"
    by (rule at_1 [THEN conjunct2, THEN conjunct2, THEN conjunct1, THEN mp,
          OF conjI [OF refl refl]])
  have mc: "batch_mc_info (batches ! 1)
        = (if True then Some \<lparr>n_cols = 8,
                              rows2d = map ((!) (ds_rows (y_dataset (?f ! 0))))
                                           [1 * 2..<(1 + 1) * 2]\<rparr>
           else None)"
    by (rule at_1 [THEN conjunct2, THEN conjunct2, THEN conjunct2, THEN conjunct2])
  have x1: "map (\<lambda>i. \<lparr>shape = ?d ! i,
                      data = map float32_round
                               (concat (map ((!) (ds_rows (x_dataset (?f ! i))))
                                          [1 * 2..<(1 + 1) * 2]))\<rparr>)
                [0..<length ?f]
            = [\<lparr>shape = [2, 1, 2, 1], data = [4, 5, 6, 7]\<rparr>]"
    by code_simp
  have y1: "(if True then Some \<lparr>n_cols = 8,
                              rows2d = map ((!) (ds_rows (y_dataset (?f ! 0))))
                                           [1 * 2..<(1 + 1) * 2]\<rparr>
           else None)
            = Some \<lparr>n_cols = 8,
               rows2d = [[2, 16, 30, 1, 1 / 2, 0, 1, 0], [3, 12, 40, 1, 1 / 4, 0, 0, - 1]]\<rparr>"
    by code_simp
  from xs mc have "batch_xs (batches ! 1) = XsList [\<lparr>shape = [2, 1, 2, 1], data = [4, 5, 6, 7]\<rparr>]"
    "batch_mc_info (batches ! 1)
     = Some \<lparr>n_cols = 8,
             rows2d = [[2, 16, 30, 1, 1 / 2, 0, 1, 0], [3, 12, 40, 1, 1 / 4, 0, 0, - 1]]\<rparr>"
    unfolding x1 y1 .
  with run len2 show ?thesis
    by blast
qed

end
